theory Spec2Isabelle
  imports Main
begin

section \<open>The balance ledger of \<open>main.py\<close>\<close>

text \<open>
  The service keeps one document per customer in the collection \<open>customers\<close> and one
  counter document \<open>counters/customer_id_counter\<close> in a transactional document store.
  The three state-changing endpoints (create, top-up, spend) each run one transaction body
  under \<open>firestore.transactional\<close>.

  Monetary fields are Python floats in the source. The model is polymorphic in the monetary
  type \<open>'m\<close>: the operations only use \<open>0\<close>, \<open>+\<close>, \<open>-\<close> and \<open><\<close> of it, so every
  theorem stated for all \<open>'m\<close> holds whatever the arithmetic is, and a theorem that needs
  the laws of exact arithmetic says so in its sort constraint.
\<close>

subsection \<open>Errors\<close>

text \<open>
  \<open>HTTPException n\<close> is \<open>HTTPException(status_code=n, ...)\<close>; the detail text is not
  modelled. \<open>RequestValidationError\<close> is the rejection of a request body by the pydantic
  model before the endpoint function is entered (FastAPI answers 422).
\<close>

datatype error = HTTPException nat | RequestValidationError

definition NotFound :: error where
  "NotFound = HTTPException 404"

definition AlreadyExists :: error where
  "AlreadyExists = HTTPException 409"

definition InsufficientBalance :: error where
  "InsufficientBalance = HTTPException 400"

definition InternalError :: error where
  "InternalError = HTTPException 500"

subsection \<open>Data model\<close>

text \<open>\<open>class CustomerBase\<close>: the body of a create request.\<close>

record CustomerBase =
  name :: string
  customer_id :: "string option"

text \<open>
  \<open>class Customer\<close>: the record returned to the caller. \<open>Customer\<close> redeclares
  \<open>customer_id\<close> as a required string, so its fields carry the prefix \<open>c_\<close> where the
  name is taken by \<open>CustomerBase\<close>.
\<close>

record 'm Customer =
  c_name :: string
  c_customer_id :: string
  total_top_up :: 'm
  total_spent :: 'm
  balance :: 'm

text \<open>
  A stored customer document (the dict of \<open>snapshot.to_dict()\<close>). The source reads the
  three monetary fields with \<open>.get(key, 0.0)\<close>, so they may be absent; \<open>name\<close> and
  \<open>customer_id\<close> are required by \<open>Customer\<close>.
\<close>

record 'm customer_doc =
  d_name :: string
  d_customer_id :: string
  d_total_top_up :: "'m option"
  d_total_spent :: "'m option"
  d_balance :: "'m option"

text \<open>The counter document; \<open>None\<close> is a null \<open>current_value\<close>.\<close>

record counter_doc =
  current_value :: "int option"

record 'm store =
  customers :: "string \<rightharpoonup> 'm customer_doc"
  counter :: "counter_doc option"

text \<open>
  \<open>Customer(id=..., **customer_data)\<close>: the keyword \<open>id\<close> is no field of the model and is
  ignored; absent monetary fields take the default \<open>0.0\<close>.
\<close>

definition get_default :: "'a option \<Rightarrow> 'a \<Rightarrow> 'a" where
  "get_default v d = (case v of None \<Rightarrow> d | Some x \<Rightarrow> x)"

definition Customer_of :: "'m::zero customer_doc \<Rightarrow> 'm Customer" where
  "Customer_of d =
     \<lparr>c_name = d_name d, c_customer_id = d_customer_id d,
      total_top_up = get_default (d_total_top_up d) 0,
      total_spent = get_default (d_total_spent d) 0,
      balance = get_default (d_balance d) 0\<rparr>"

subsection \<open>Transactions\<close>

text \<open>
  A transaction reads from the snapshot taken when it begins and buffers its writes.
  \<open>transaction.set\<close> creates or replaces a document; \<open>transaction.update\<close> replaces the
  given fields of an existing document. An update of a customer document carries the new
  value of each monetary field it names.
\<close>

datatype ref = CustomerRef string | CounterRef

record 'm customer_update =
  u_total_top_up :: "'m option"
  u_total_spent :: "'m option"
  u_balance :: "'m option"

datatype 'm buffered_write =
    SetCounter counter_doc
  | UpdateCounter int
  | SetCustomer string "'m customer_doc"
  | UpdateCustomer string "'m customer_update"

record 'm transaction =
  snapshot :: "'m store"
  reads :: "ref list"
  writes :: "'m buffered_write list"

definition get_customer :: "string \<Rightarrow> 'm transaction \<Rightarrow> 'm customer_doc option \<times> 'm transaction" where
  "get_customer i t = (customers (snapshot t) i, t\<lparr>reads := reads t @ [CustomerRef i]\<rparr>)"

definition get_counter :: "'m transaction \<Rightarrow> counter_doc option \<times> 'm transaction" where
  "get_counter t = (counter (snapshot t), t\<lparr>reads := reads t @ [CounterRef]\<rparr>)"

definition put :: "'m buffered_write \<Rightarrow> 'm transaction \<Rightarrow> 'm transaction" where
  "put w t = t\<lparr>writes := writes t @ [w]\<rparr>"

definition apply_update :: "'m customer_update \<Rightarrow> 'm customer_doc \<Rightarrow> 'm customer_doc" where
  "apply_update u d =
     d\<lparr>d_total_top_up := (case u_total_top_up u of None \<Rightarrow> d_total_top_up d | Some v \<Rightarrow> Some v),
       d_total_spent := (case u_total_spent u of None \<Rightarrow> d_total_spent d | Some v \<Rightarrow> Some v),
       d_balance := (case u_balance u of None \<Rightarrow> d_balance d | Some v \<Rightarrow> Some v)\<rparr>"

text \<open>Applying one buffered write; an update of an absent document fails.\<close>

fun apply_write :: "'m buffered_write \<Rightarrow> 'm store \<Rightarrow> 'm store option" where
  "apply_write (SetCounter c) s = Some (s\<lparr>counter := Some c\<rparr>)"
| "apply_write (UpdateCounter n) s =
     (case counter s of
        None \<Rightarrow> None
      | Some c \<Rightarrow> Some (s\<lparr>counter := Some (c\<lparr>current_value := Some n\<rparr>)\<rparr>))"
| "apply_write (SetCustomer i d) s = Some (s\<lparr>customers := (customers s)(i \<mapsto> d)\<rparr>)"
| "apply_write (UpdateCustomer i u) s =
     (case customers s i of
        None \<Rightarrow> None
      | Some d \<Rightarrow> Some (s\<lparr>customers := (customers s)(i \<mapsto> apply_update u d)\<rparr>))"

text \<open>The commit applies the buffered writes in order, all or none.\<close>

fun commit :: "'m buffered_write list \<Rightarrow> 'm store \<Rightarrow> 'm store option" where
  "commit [] s = Some s"
| "commit (w # ws) s = (case apply_write w s of None \<Rightarrow> None | Some s' \<Rightarrow> commit ws s')"

text \<open>
  The round trips to the store that one request makes, in order (the interface of the
  store: begin, read, write, update, commit, roll back).
\<close>

datatype 'm event =
    BeginTransaction
  | ReadDocument ref
  | WriteDocument "'m buffered_write"
  | CommitTransaction
  | RollbackTransaction

text \<open>
  \<open>@firestore.transactional\<close> with a single client: the body runs once on the snapshot.
  An exception of the body rolls the transaction back and is raised again, nothing is
  written and the body is not run a second time; otherwise the buffered writes are
  committed. Only a failed commit is retried by the runner, and with one client the
  snapshot is the store at commit time, so the commit finds no conflict. A commit whose
  update meets an absent document is an error of the store, which the endpoints turn
  into status 500.
\<close>

definition transactional ::
  "('m transaction \<Rightarrow> (error + 'a) \<times> 'm transaction) \<Rightarrow> 'm store \<Rightarrow>
     (error + 'a) \<times> 'm store \<times> 'm event list" where
  "transactional body s =
     (case body \<lparr>snapshot = s, reads = [], writes = []\<rparr> of
        (Inl e, t) \<Rightarrow>
          (Inl e, s, BeginTransaction # map ReadDocument (reads t) @ [RollbackTransaction])
      | (Inr r, t) \<Rightarrow>
          (case commit (writes t) s of
             None \<Rightarrow>
               (Inl InternalError, s,
                BeginTransaction # map ReadDocument (reads t) @ map WriteDocument (writes t)
                  @ [RollbackTransaction])
           | Some s' \<Rightarrow>
               (Inr r, s',
                BeginTransaction # map ReadDocument (reads t) @ map WriteDocument (writes t)
                  @ [CommitTransaction])))"

subsection \<open>Identifier allocator\<close>

text \<open>
  Python's format specification \<open>04d\<close> on an integer: the decimal digits, padded with
  zeros after the sign to a width of at least four characters.
\<close>

definition digit_char :: "nat \<Rightarrow> char" where
  "digit_char d = ''0123456789'' ! d"

fun dec_digits :: "nat \<Rightarrow> string" where
  "dec_digits n = (if n < 10 then [digit_char n] else dec_digits (n div 10) @ [digit_char (n mod 10)])"

declare dec_digits.simps [simp del]

definition format_04d :: "int \<Rightarrow> string" where
  "format_04d n =
     (let ds = dec_digits (nat \<bar>n\<bar>)
      in if n < 0 then CHR ''-'' # replicate (3 - length ds) CHR ''0'' @ ds
         else replicate (4 - length ds) CHR ''0'' @ ds)"

text \<open>
  \<open>_generate_sequential_customer_id(transaction)\<close>. \<open>current_value or 0\<close> turns a null
  (and a zero) counter into \<open>0\<close>.
\<close>

definition generate_sequential_customer_id :: "'m transaction \<Rightarrow> string \<times> 'm transaction" where
  "generate_sequential_customer_id t =
     (let (counter_doc, t1) = get_counter t;
          (current_counter_value, t2) =
            (case counter_doc of
               None \<Rightarrow> (0, put (SetCounter \<lparr>current_value = Some 0\<rparr>) t1)
             | Some c \<Rightarrow> (get_default (current_value c) 0, t1));
          new_counter_value = current_counter_value + 1;
          t3 = put (UpdateCounter new_counter_value) t2;
          generated_id = ''GOD-'' @ format_04d new_counter_value
      in (generated_id, t3))"

subsection \<open>Endpoints\<close>

text \<open>\<open>create_customer\<close> with its transaction body \<open>create_customer_transaction\<close>.\<close>

definition create_customer_transaction ::
  "CustomerBase \<Rightarrow> 'm::zero transaction \<Rightarrow> (error + 'm Customer) \<times> 'm transaction" where
  "create_customer_transaction customer_data t =
     (let doc_id_to_use = customer_id customer_data;
          new_customer_data_dict = (\<lambda>final_assigned_id.
            \<lparr>d_name = name customer_data, d_customer_id = final_assigned_id,
             d_total_top_up = Some 0, d_total_spent = Some 0, d_balance = Some 0\<rparr>)
      in if doc_id_to_use \<noteq> None \<and> doc_id_to_use \<noteq> Some []
         then
           (let (doc, t1) = get_customer (the doc_id_to_use) t
            in if doc \<noteq> None then (Inl AlreadyExists, t1)
               else
                 (let final_assigned_id = the doc_id_to_use;
                      t2 = put (SetCustomer final_assigned_id
                                 (new_customer_data_dict final_assigned_id)) t1
                  in (Inr (Customer_of (new_customer_data_dict final_assigned_id)), t2)))
         else
           (let (final_assigned_id, t1) = generate_sequential_customer_id t;
                t2 = put (SetCustomer final_assigned_id
                           (new_customer_data_dict final_assigned_id)) t1
            in (Inr (Customer_of (new_customer_data_dict final_assigned_id)), t2)))"

definition create_customer ::
  "CustomerBase \<Rightarrow> 'm::zero store \<Rightarrow> (error + 'm Customer) \<times> 'm store \<times> 'm event list" where
  "create_customer customer_data s = transactional (create_customer_transaction customer_data) s"

text \<open>\<open>class TransactionAmount\<close>: \<open>amount: float = Field(..., gt=0)\<close>.\<close>

definition TransactionAmount :: "'m::{zero,ord} \<Rightarrow> error + 'm" where
  "TransactionAmount amount = (if 0 < amount then Inr amount else Inl RequestValidationError)"

text \<open>\<open>top_up_customer_balance\<close> with its transaction body \<open>update_in_transaction\<close>.\<close>

definition top_up_in_transaction ::
  "string \<Rightarrow> 'm::{zero,plus} \<Rightarrow> 'm transaction \<Rightarrow> (error + 'm Customer) \<times> 'm transaction" where
  "top_up_in_transaction customer_ref amount t =
     (let (snap, t1) = get_customer customer_ref t
      in case snap of
           None \<Rightarrow> (Inl NotFound, t1)
         | Some customer_data \<Rightarrow>
             (let current_total_top_up = get_default (d_total_top_up customer_data) 0;
                  current_balance = get_default (d_balance customer_data) 0;
                  new_total_top_up = current_total_top_up + amount;
                  new_balance = current_balance + amount;
                  t2 = put (UpdateCustomer customer_ref
                             \<lparr>u_total_top_up = Some new_total_top_up, u_total_spent = None,
                              u_balance = Some new_balance\<rparr>) t1;
                  customer_data' = customer_data
                    \<lparr>d_total_top_up := Some new_total_top_up, d_balance := Some new_balance\<rparr>
              in (Inr (Customer_of customer_data'), t2)))"

definition top_up_customer_balance ::
  "string \<Rightarrow> 'm::{zero,plus,ord} \<Rightarrow> 'm store \<Rightarrow> (error + 'm Customer) \<times> 'm store \<times> 'm event list" where
  "top_up_customer_balance cid amount s =
     (case TransactionAmount amount of
        Inl e \<Rightarrow> (Inl e, s, [])
      | Inr amount_to_add \<Rightarrow> transactional (top_up_in_transaction cid amount_to_add) s)"

text \<open>\<open>spend_customer_balance\<close> with its transaction body \<open>update_in_transaction\<close>.\<close>

definition spend_in_transaction ::
  "string \<Rightarrow> 'm::{zero,plus,minus,ord} \<Rightarrow> 'm transaction \<Rightarrow>
     (error + 'm Customer) \<times> 'm transaction" where
  "spend_in_transaction customer_ref amount t =
     (let (snap, t1) = get_customer customer_ref t
      in case snap of
           None \<Rightarrow> (Inl NotFound, t1)
         | Some customer_data \<Rightarrow>
             (let current_total_spent = get_default (d_total_spent customer_data) 0;
                  current_balance = get_default (d_balance customer_data) 0
              in if current_balance < amount then (Inl InsufficientBalance, t1)
                 else
                   (let new_total_spent = current_total_spent + amount;
                        new_balance = current_balance - amount;
                        t2 = put (UpdateCustomer customer_ref
                                   \<lparr>u_total_top_up = None, u_total_spent = Some new_total_spent,
                                    u_balance = Some new_balance\<rparr>) t1;
                        customer_data' = customer_data
                          \<lparr>d_total_spent := Some new_total_spent, d_balance := Some new_balance\<rparr>
                    in (Inr (Customer_of customer_data'), t2))))"

definition spend_customer_balance ::
  "string \<Rightarrow> 'm::{zero,plus,minus,ord} \<Rightarrow> 'm store \<Rightarrow>
     (error + 'm Customer) \<times> 'm store \<times> 'm event list" where
  "spend_customer_balance cid amount s =
     (case TransactionAmount amount of
        Inl e \<Rightarrow> (Inl e, s, [])
      | Inr amount_to_spend \<Rightarrow> transactional (spend_in_transaction cid amount_to_spend) s)"

subsection \<open>Notions used to state the properties\<close>

text \<open>The value the allocator reads from the counter: \<open>0\<close> for an absent or null counter.\<close>

definition counter_value :: "'m store \<Rightarrow> int" where
  "counter_value s = (case counter s of None \<Rightarrow> 0 | Some c \<Rightarrow> get_default (current_value c) 0)"

text \<open>The number a string of decimal digits denotes (leading zeros do not count).\<close>

definition decimal_value :: "string \<Rightarrow> nat" where
  "decimal_value ds = foldl (\<lambda>a c. 10 * a + (of_char c - 48)) 0 ds"

text \<open>The document \<open>new_customer_data_dict\<close> that a create request writes.\<close>

definition new_customer_doc :: "string \<Rightarrow> string \<Rightarrow> 'm::zero customer_doc" where
  "new_customer_doc n i =
     \<lparr>d_name = n, d_customer_id = i, d_total_top_up = Some 0, d_total_spent = Some 0,
      d_balance = Some 0\<rparr>"

text \<open>Requests to the three endpoints, served one after the other.\<close>

datatype 'm request = Create CustomerBase | TopUp string 'm | Spend string 'm

fun handle ::
  "'m::{zero,plus,minus,ord} request \<Rightarrow> 'm store \<Rightarrow>
     (error + 'm Customer) \<times> 'm store \<times> 'm event list" where
  "handle (Create customer_data) s = create_customer customer_data s"
| "handle (TopUp cid amount) s = top_up_customer_balance cid amount s"
| "handle (Spend cid amount) s = spend_customer_balance cid amount s"

fun serve ::
  "'m::{zero,plus,minus,ord} request list \<Rightarrow> 'm store \<Rightarrow>
     (error + 'm Customer) list \<times> 'm store \<times> 'm event list" where
  "serve [] s = ([], s, [])"
| "serve (r # rs) s =
     (case handle r s of (out, s1, tr) \<Rightarrow>
        (case serve rs s1 of (outs, s2, trs) \<Rightarrow> (out # outs, s2, tr @ trs)))"


text \<open>The writes a trace sends to the store, in order.\<close>

fun written :: "'m event list \<Rightarrow> 'm buffered_write list" where
  "written [] = []"
| "written (WriteDocument w # es) = w # written es"
| "written (e # es) = written es"

text \<open>The ledger invariant on a customer record, and on every document of a store.\<close>

definition ledger_invariant :: "'m::{zero,minus,ord} Customer \<Rightarrow> bool" where
  "ledger_invariant c \<longleftrightarrow> balance c = total_top_up c - total_spent c \<and> 0 \<le> balance c"

definition store_invariant :: "'m::{zero,minus,ord} store \<Rightarrow> bool" where
  "store_invariant s \<longleftrightarrow> (\<forall>i d. customers s i = Some d \<longrightarrow> ledger_invariant (Customer_of d))"

text \<open>The second half of the ledger invariant alone: no balance of the store is negative.\<close>

definition balance_nonneg :: "'m::{zero,ord} store \<Rightarrow> bool" where
  "balance_nonneg s \<longleftrightarrow> (\<forall>i d. customers s i = Some d \<longrightarrow> 0 \<le> balance (Customer_of d))"

text \<open>
  A store used for examples: one customer with \<open>total_top_up = 100\<close>, \<open>total_spent = 40\<close>
  and \<open>balance = 60\<close>, and a counter at \<open>1\<close>; and the empty store.
\<close>

definition example_store :: "int store" where
  "example_store =
     \<lparr>customers = [''GOD-0001'' \<mapsto>
        \<lparr>d_name = ''Alice'', d_customer_id = ''GOD-0001'', d_total_top_up = Some 100,
         d_total_spent = Some 40, d_balance = Some 60\<rparr>],
      counter = Some \<lparr>current_value = Some 1\<rparr>\<rparr>"

definition empty_store :: "int store" where
  "empty_store = \<lparr>customers = Map.empty, counter = None\<rparr>"

subsection \<open>Binary floating point\<close>

text \<open>
  The monetary fields of the source are Python floats, that is IEEE 754 binary64 numbers.
  \<open>Double m e\<close> is the finite double of value \<open>m * 2 ^ e\<close>, kept in canonical form
  (\<open>m\<close> is odd, or the double is \<open>Double 0 0\<close>), so that two doubles are equal as
  Python's \<open>==\<close> has it exactly when they are the same term. Addition and subtraction
  compute the exact result and round it to 53 significant bits, to the nearest double with
  ties to the even one. The range of the exponent (overflow to infinity, subnormal
  numbers), infinities and NaN are not modelled.
\<close>

datatype double = Double int int

text \<open>The number of bits of a positive integer, and the number of its trailing zero bits.\<close>

function bitlen :: "int \<Rightarrow> nat" where
  "bitlen m = (if m \<le> 0 then 0 else Suc (bitlen (m div 2)))"
  by pat_completeness auto
termination
  by (relation "measure nat") auto

declare bitlen.simps [simp del]

function trailing_zeros :: "int \<Rightarrow> nat" where
  "trailing_zeros m = (if m = 0 \<or> odd m then 0 else Suc (trailing_zeros (m div 2)))"
  by pat_completeness auto
termination
  by (relation "measure (\<lambda>m. nat \<bar>m\<bar>)") auto

declare trailing_zeros.simps [simp del]

definition canonical :: "int \<Rightarrow> int \<Rightarrow> double" where
  "canonical m e =
     (if m = 0 then Double 0 0
      else let k = trailing_zeros m in Double (m div 2 ^ k) (e + int k))"

definition round53 :: "int \<Rightarrow> int \<Rightarrow> double" where
  "round53 m e =
     (let k = bitlen \<bar>m\<bar> - 53
      in if k = 0 then canonical m e
         else
           (let q = m div 2 ^ k;
                r = m mod 2 ^ k;
                half = 2 ^ (k - 1);
                q' = (if r < half then q else if half < r then q + 1
                      else if even q then q else q + 1)
            in canonical q' (e + int k)))"

text \<open>The mantissas of two doubles at their common (smaller) exponent.\<close>

fun aligned :: "double \<Rightarrow> double \<Rightarrow> int \<times> int \<times> int" where
  "aligned (Double m1 e1) (Double m2 e2) =
     (let e = min e1 e2 in (m1 * 2 ^ nat (e1 - e), m2 * 2 ^ nat (e2 - e), e))"

instantiation double :: "{zero,plus,minus,ord}"
begin

definition zero_double :: double where
  "zero_double = Double 0 0"

definition plus_double :: "double \<Rightarrow> double \<Rightarrow> double" where
  "plus_double a b = (case aligned a b of (x, y, e) \<Rightarrow> round53 (x + y) e)"

definition minus_double :: "double \<Rightarrow> double \<Rightarrow> double" where
  "minus_double a b = (case aligned a b of (x, y, e) \<Rightarrow> round53 (x - y) e)"

definition less_double :: "double \<Rightarrow> double \<Rightarrow> bool" where
  "less_double a b = (case aligned a b of (x, y, e) \<Rightarrow> x < y)"

definition less_eq_double :: "double \<Rightarrow> double \<Rightarrow> bool" where
  "less_eq_double a b = (case aligned a b of (x, y, e) \<Rightarrow> x \<le> y)"

instance ..

end




subsection \<open>Concurrent calls\<close>

text \<open>
  Modelled from the spec: the transaction runner of the store with several clients
  (sections 5 and 6 of the specification; the runner is the store's library, of which the
  source holds only the decorator \<open>@firestore.transactional\<close>). Every document has a
  version, which a committed write increases. A call begins a transaction by taking a
  snapshot of the store and of the versions (\<open>BeginTransaction\<close>). When its body has run
  on the snapshot, the commit validates the read set: if a document that the body has read
  has another version now than in the snapshot, the commit fails with \<open>Conflict\<close>,
  nothing is written and the whole body is run again on a fresh snapshot; otherwise the
  buffered writes are applied to the store atomically. An exception of the body ends the
  call at once, without a retry.

  A call is \<open>Pending n\<close> before it begins an attempt, \<open>Reading n snap vs\<close> while it holds
  the snapshot \<open>snap\<close> with the versions \<open>vs\<close>, and \<open>Finished n r\<close> with its result;
  \<open>n\<close> counts the conflicts the call has met so far.
\<close>

record 'm shared =
  current :: "'m store"
  versions :: "ref \<Rightarrow> nat"

datatype 'm call =
    Pending nat
  | Reading nat "'m store" "ref \<Rightarrow> nat"
  | Finished nat "error + 'm Customer"

fun ref_of :: "'m buffered_write \<Rightarrow> ref" where
  "ref_of (SetCounter c) = CounterRef"
| "ref_of (UpdateCounter n) = CounterRef"
| "ref_of (SetCustomer i d) = CustomerRef i"
| "ref_of (UpdateCustomer i u) = CustomerRef i"

definition bump :: "'m buffered_write list \<Rightarrow> (ref \<Rightarrow> nat) \<Rightarrow> (ref \<Rightarrow> nat)" where
  "bump ws v = (\<lambda>r. if r \<in> set (map ref_of ws) then Suc (v r) else v r)"

text \<open>Modelled from the spec: the next step of one call, on the shared store.\<close>

definition step_call ::
  "('m transaction \<Rightarrow> (error + 'm Customer) \<times> 'm transaction) \<Rightarrow> 'm shared \<Rightarrow> 'm call \<Rightarrow>
     'm call \<times> 'm shared" where
  "step_call body sh c =
     (case c of
        Pending n \<Rightarrow> (Reading n (current sh) (versions sh), sh)
      | Reading n snap vs \<Rightarrow>
          (case body \<lparr>snapshot = snap, reads = [], writes = []\<rparr> of
             (Inl e, t) \<Rightarrow> (Finished n (Inl e), sh)
           | (Inr r, t) \<Rightarrow>
               if \<exists>x \<in> set (reads t). versions sh x \<noteq> vs x then (Pending (Suc n), sh)
               else
                 (case commit (writes t) (current sh) of
                    None \<Rightarrow> (Finished n (Inl InternalError), sh)
                  | Some s' \<Rightarrow>
                      (Finished n (Inr r),
                       \<lparr>current = s', versions = bump (writes t) (versions sh)\<rparr>)))
      | Finished n r \<Rightarrow> (Finished n r, sh))"

text \<open>
  Modelled from the spec: two calls \<open>A\<close> and \<open>B\<close> of the same transaction body, whose
  steps a schedule interleaves in any order; a turn of a finished call does nothing.
\<close>

datatype turn = A | B

fun turn_step ::
  "('m transaction \<Rightarrow> (error + 'm Customer) \<times> 'm transaction) \<Rightarrow> turn \<Rightarrow>
     'm shared \<times> 'm call \<times> 'm call \<Rightarrow> 'm shared \<times> 'm call \<times> 'm call" where
  "turn_step body A (sh, a, b) = (case step_call body sh a of (a', sh') \<Rightarrow> (sh', a', b))"
| "turn_step body B (sh, a, b) = (case step_call body sh b of (b', sh') \<Rightarrow> (sh', a, b'))"

fun interleave ::
  "('m transaction \<Rightarrow> (error + 'm Customer) \<times> 'm transaction) \<Rightarrow> turn list \<Rightarrow>
     'm shared \<times> 'm call \<times> 'm call \<Rightarrow> 'm shared \<times> 'm call \<times> 'm call" where
  "interleave body [] st = st"
| "interleave body (t # ts) st = interleave body ts (turn_step body t st)"

text \<open>
  Two concurrent top-ups of the same customer by the same amount (both requests have passed
  the validation of the amount), started on the store \<open>s\<close>.
\<close>

definition two_top_ups ::
  "string \<Rightarrow> 'm::{zero,plus} \<Rightarrow> turn list \<Rightarrow> 'm store \<Rightarrow> 'm shared \<times> 'm call \<times> 'm call" where
  "two_top_ups cid amount ts s =
     interleave (top_up_in_transaction cid amount) ts
       (\<lparr>current = s, versions = (\<lambda>r. 0)\<rparr>, Pending 0, Pending 0)"

text \<open>The document after one top-up, as \<open>update_in_transaction\<close> computes it.\<close>

definition topped_up :: "'m::{zero,plus} \<Rightarrow> 'm customer_doc \<Rightarrow> 'm customer_doc" where
  "topped_up amount d =
     d\<lparr>d_total_top_up := Some (get_default (d_total_top_up d) 0 + amount),
       d_balance := Some (get_default (d_balance d) 0 + amount)\<rparr>"

fun finished :: "'m call \<Rightarrow> nat" where
  "finished (Finished n r) = 1"
| "finished c = 0"

fun conflicts :: "'m call \<Rightarrow> nat" where
  "conflicts (Pending n) = n"
| "conflicts (Reading n snap vs) = n"
| "conflicts (Finished n r) = n"

fun result :: "'m call \<Rightarrow> (error + 'm Customer) option" where
  "result (Finished n r) = Some r"
| "result c = None"

text \<open>
  What holds of the two top-ups in every state they reach from a store that holds the
  customer document \<open>d\<close>: with \<open>k\<close> calls finished, the store holds \<open>d\<close> topped up \<open>k\<close>
  times at version \<open>k\<close>; a snapshot holds the document of its version; a finished call has
  succeeded; a call that has met a conflict has met it after the other call finished.
\<close>

fun call_ok ::
  "string \<Rightarrow> 'm::{zero,plus} \<Rightarrow> 'm customer_doc \<Rightarrow> nat \<Rightarrow> nat \<Rightarrow> 'm call \<Rightarrow> bool" where
  "call_ok cid amount d k other (Pending n) \<longleftrightarrow> (n = 1 \<longrightarrow> other = 1)"
| "call_ok cid amount d k other (Reading n snap vs) \<longleftrightarrow>
     (n = 1 \<longrightarrow> other = 1 \<and> vs (CustomerRef cid) = k)
     \<and> vs (CustomerRef cid) \<le> k
     \<and> customers snap cid = Some ((topped_up amount ^^ vs (CustomerRef cid)) d)"
| "call_ok cid amount d k other (Finished n r) \<longleftrightarrow>
     (n = 1 \<longrightarrow> other = 1)
     \<and> (\<exists>j. 1 \<le> j \<and> j \<le> k \<and> r = Inr (Customer_of ((topped_up amount ^^ j) d)))"

definition race_invariant ::
  "string \<Rightarrow> 'm::{zero,plus} \<Rightarrow> 'm customer_doc \<Rightarrow> 'm shared \<times> 'm call \<times> 'm call \<Rightarrow> bool" where
  "race_invariant cid amount d st =
     (case st of (sh, a, b) \<Rightarrow>
        customers (current sh) cid = Some ((topped_up amount ^^ (finished a + finished b)) d)
        \<and> versions sh (CustomerRef cid) = finished a + finished b
        \<and> conflicts a + conflicts b \<le> 1
        \<and> call_ok cid amount d (finished a + finished b) (finished b) a
        \<and> call_ok cid amount d (finished a + finished b) (finished a) b)"

text \<open>The number of own turns a call needs at most until it has finished.\<close>

fun turns_left :: "'m call \<Rightarrow> nat" where
  "turns_left (Pending n) = 4 - 2 * n"
| "turns_left (Reading n snap vs) = 3 - 2 * n"
| "turns_left (Finished n r) = 0"

text \<open>A store for the scenario of two top-ups: one customer with a balance of zero.\<close>

definition race_store :: "double store" where
  "race_store =
     \<lparr>customers = [''GOD-0001'' \<mapsto>
        \<lparr>d_name = ''Alice'', d_customer_id = ''GOD-0001'', d_total_top_up = Some (Double 0 0),
         d_total_spent = Some (Double 0 0), d_balance = Some (Double 0 0)\<rparr>],
      counter = Some \<lparr>current_value = Some 1\<rparr>\<rparr>"

section \<open>What the endpoints compute\<close>

lemma generate_sequential_customer_id_eq:
  "generate_sequential_customer_id t =
     (''GOD-'' @ format_04d (counter_value (snapshot t) + 1),
      t\<lparr>reads := reads t @ [CounterRef],
        writes := writes t
          @ (if counter (snapshot t) = None then [SetCounter \<lparr>current_value = Some 0\<rparr>] else [])
          @ [UpdateCounter (counter_value (snapshot t) + 1)]\<rparr>)"
  by (simp add: generate_sequential_customer_id_def get_counter_def put_def counter_value_def
      Let_def split: option.splits)

lemma top_up_closed:
  "top_up_customer_balance cid amount s =
    (if \<not> 0 < amount then (Inl RequestValidationError, s, [])
     else case customers s cid of
        None \<Rightarrow>
          (Inl NotFound, s,
           [BeginTransaction, ReadDocument (CustomerRef cid), RollbackTransaction])
      | Some d \<Rightarrow>
         (Inr (Customer_of
                (d\<lparr>d_total_top_up := Some (get_default (d_total_top_up d) 0 + amount),
                   d_balance := Some (get_default (d_balance d) 0 + amount)\<rparr>)),
          s\<lparr>customers := (customers s)(cid \<mapsto>
                d\<lparr>d_total_top_up := Some (get_default (d_total_top_up d) 0 + amount),
                  d_balance := Some (get_default (d_balance d) 0 + amount)\<rparr>)\<rparr>,
          [BeginTransaction, ReadDocument (CustomerRef cid),
           WriteDocument (UpdateCustomer cid
             \<lparr>u_total_top_up = Some (get_default (d_total_top_up d) 0 + amount),
              u_total_spent = None,
              u_balance = Some (get_default (d_balance d) 0 + amount)\<rparr>),
           CommitTransaction]))"
  by (simp add: top_up_customer_balance_def TransactionAmount_def transactional_def
      top_up_in_transaction_def get_customer_def put_def apply_update_def Let_def
      split: option.splits)

lemma spend_closed:
  "spend_customer_balance cid amount s =
    (if \<not> 0 < amount then (Inl RequestValidationError, s, [])
     else case customers s cid of
        None \<Rightarrow>
          (Inl NotFound, s,
           [BeginTransaction, ReadDocument (CustomerRef cid), RollbackTransaction])
      | Some d \<Rightarrow>
         if get_default (d_balance d) 0 < amount
         then (Inl InsufficientBalance, s,
               [BeginTransaction, ReadDocument (CustomerRef cid), RollbackTransaction])
         else
           (Inr (Customer_of
                  (d\<lparr>d_total_spent := Some (get_default (d_total_spent d) 0 + amount),
                     d_balance := Some (get_default (d_balance d) 0 - amount)\<rparr>)),
            s\<lparr>customers := (customers s)(cid \<mapsto>
                  d\<lparr>d_total_spent := Some (get_default (d_total_spent d) 0 + amount),
                    d_balance := Some (get_default (d_balance d) 0 - amount)\<rparr>)\<rparr>,
            [BeginTransaction, ReadDocument (CustomerRef cid),
             WriteDocument (UpdateCustomer cid
               \<lparr>u_total_top_up = None,
                u_total_spent = Some (get_default (d_total_spent d) 0 + amount),
                u_balance = Some (get_default (d_balance d) 0 - amount)\<rparr>),
             CommitTransaction]))"
  by (simp add: spend_customer_balance_def TransactionAmount_def transactional_def
      spend_in_transaction_def get_customer_def put_def apply_update_def Let_def
      split: option.splits)

lemma create_requested_closed:
  assumes "customer_id cd = Some rid" "rid \<noteq> []"
  shows "create_customer cd s =
    (case customers s rid of
       Some d \<Rightarrow>
         (Inl AlreadyExists, s,
          [BeginTransaction, ReadDocument (CustomerRef rid), RollbackTransaction])
     | None \<Rightarrow>
         (Inr (Customer_of (new_customer_doc (name cd) rid)),
          s\<lparr>customers := (customers s)(rid \<mapsto> new_customer_doc (name cd) rid)\<rparr>,
          [BeginTransaction, ReadDocument (CustomerRef rid),
           WriteDocument (SetCustomer rid (new_customer_doc (name cd) rid)),
           CommitTransaction]))"
  using assms
  by (simp add: create_customer_def transactional_def create_customer_transaction_def
      get_customer_def put_def Let_def new_customer_doc_def split: option.splits)

lemma create_allocated_closed:
  assumes "customer_id cd = None \<or> customer_id cd = Some []"
  shows "create_customer cd s =
    (let i = ''GOD-'' @ format_04d (counter_value s + 1) in
       (Inr (Customer_of (new_customer_doc (name cd) i)),
        s\<lparr>customers := (customers s)(i \<mapsto> new_customer_doc (name cd) i),
          counter := Some (get_default (counter s) \<lparr>current_value = Some 0\<rparr>
                            \<lparr>current_value := Some (counter_value s + 1)\<rparr>)\<rparr>,
        [BeginTransaction, ReadDocument CounterRef] @
        (if counter s = None then [WriteDocument (SetCounter \<lparr>current_value = Some 0\<rparr>)]
         else []) @
        [WriteDocument (UpdateCounter (counter_value s + 1)),
         WriteDocument (SetCustomer i (new_customer_doc (name cd) i)), CommitTransaction]))"
  using assms
  by (auto simp add: create_customer_def transactional_def create_customer_transaction_def
      generate_sequential_customer_id_eq put_def Let_def new_customer_doc_def get_default_def
      split: option.splits)

subsection \<open>Decimal digits\<close>

lemma of_char_digit_char: "d < 10 \<Longrightarrow> of_char (digit_char d) = (48 + d :: nat)"
proof -
  assume "d < 10"
  then have "d \<in> {0, 1, 2, 3, 4, 5, 6, 7, 8, 9}" by auto
  then show ?thesis by (auto simp: digit_char_def)
qed

lemma decimal_value_snoc:
  "decimal_value (ds @ [c]) = 10 * decimal_value ds + (of_char c - 48)"
  by (simp add: decimal_value_def)

lemma decimal_value_dec_digits: "decimal_value (dec_digits n) = n"
proof (induction n rule: dec_digits.induct)
  case (1 n)
  show ?case
  proof (cases "n < 10")
    case True
    then show ?thesis
      by (subst dec_digits.simps) (simp add: decimal_value_def of_char_digit_char)
  next
    case False
    with 1 have "decimal_value (dec_digits (n div 10)) = n div 10" by simp
    with False show ?thesis
      by (subst dec_digits.simps) (simp add: decimal_value_snoc of_char_digit_char)
  qed
qed


lemma length_dec_digits_pos: "0 < length (dec_digits n)"
  by (subst dec_digits.simps) simp

lemma length_dec_digits_step:
  "10 \<le> n \<Longrightarrow> length (dec_digits n) = Suc (length (dec_digits (n div 10)))"
  by (subst dec_digits.simps) simp

lemma length_dec_digits_4: "1000 \<le> n \<Longrightarrow> 4 \<le> length (dec_digits n)"
proof -
  assume n: "1000 \<le> n"
  define a where "a = n div 10"
  define b where "b = a div 10"
  define c where "c = b div 10"
  have "10 \<le> n" "10 \<le> a" "10 \<le> b"
    using n by (simp_all add: a_def b_def)
  then have "length (dec_digits n) = Suc (Suc (Suc (length (dec_digits c))))"
    by (simp add: length_dec_digits_step a_def [symmetric] b_def [symmetric] c_def [symmetric])
  moreover have "0 < length (dec_digits c)" by (rule length_dec_digits_pos)
  ultimately show ?thesis by linarith
qed

lemma format_04d_nonneg:
  "0 \<le> n \<Longrightarrow>
   format_04d n = replicate (4 - length (dec_digits (nat n))) CHR ''0'' @ dec_digits (nat n)"
  by (simp add: format_04d_def Let_def)


subsection \<open>The counter under a sequence of requests\<close>

lemma counter_value_after_allocation:
  "customer_id cd = None \<or> customer_id cd = Some [] \<Longrightarrow>
   counter_value (fst (snd (create_customer cd s))) = counter_value s + 1"
  by (simp add: create_allocated_closed Let_def counter_value_def get_default_def)








lemma counter_after_allocation:
  "customer_id cd = None \<or> customer_id cd = Some [] \<Longrightarrow>
   counter (fst (snd (create_customer cd s)))
     = Some (get_default (counter s) \<lparr>current_value = Some 0\<rparr>
              \<lparr>current_value := Some (counter_value s + 1)\<rparr>)"
  by (simp add: create_allocated_closed Let_def)

lemma create_allocated_result:
  "customer_id cd = None \<or> customer_id cd = Some [] \<Longrightarrow>
   fst (create_customer cd s)
     = Inr (Customer_of (new_customer_doc (name cd) (''GOD-'' @ format_04d (counter_value s + 1))))"
  by (simp add: create_allocated_closed Let_def)

lemma format_04d_1: "format_04d 1 = ''0001''"
  by code_simp

lemma format_04d_2: "format_04d 2 = ''0002''"
  by code_simp

subsection \<open>The returned record\<close>

lemma Customer_of_simps:
  "c_name (Customer_of d) = d_name d"
  "c_customer_id (Customer_of d) = d_customer_id d"
  "total_top_up (Customer_of d) = get_default (d_total_top_up d) 0"
  "total_spent (Customer_of d) = get_default (d_total_spent d) 0"
  "balance (Customer_of d) = get_default (d_balance d) 0"
  by (simp_all add: Customer_of_def)

lemma Customer_of_top_up:
  "Customer_of (d\<lparr>d_total_top_up := Some t, d_balance := Some b\<rparr>)
     = (Customer_of d)\<lparr>total_top_up := t, balance := b\<rparr>"
  by (simp add: Customer_of_def get_default_def)

lemma Customer_of_spend:
  "Customer_of (d\<lparr>d_total_spent := Some t, d_balance := Some b\<rparr>)
     = (Customer_of d)\<lparr>total_spent := t, balance := b\<rparr>"
  by (simp add: Customer_of_def get_default_def)

subsection \<open>Create requests\<close>

lemma create_requested_exists:
  "customer_id cd = Some rid \<Longrightarrow> rid \<noteq> [] \<Longrightarrow> customers s rid = Some d \<Longrightarrow>
   create_customer cd s =
     (Inl AlreadyExists, s,
      [BeginTransaction, ReadDocument (CustomerRef rid), RollbackTransaction])"
  by (simp add: create_requested_closed)

lemma create_requested_fresh:
  "customer_id cd = Some rid \<Longrightarrow> rid \<noteq> [] \<Longrightarrow> customers s rid = None \<Longrightarrow>
   create_customer cd s =
     (Inr (Customer_of (new_customer_doc (name cd) rid)),
      s\<lparr>customers := (customers s)(rid \<mapsto> new_customer_doc (name cd) rid)\<rparr>,
      [BeginTransaction, ReadDocument (CustomerRef rid),
       WriteDocument (SetCustomer rid (new_customer_doc (name cd) rid)), CommitTransaction])"
  by (simp add: create_requested_closed)

lemma Customer_of_new_customer_doc:
  "Customer_of (new_customer_doc n i) =
     \<lparr>c_name = n, c_customer_id = i, total_top_up = 0, total_spent = 0, balance = 0\<rparr>"
  by (simp add: Customer_of_def new_customer_doc_def get_default_def)

subsection \<open>The ledger invariant in exact arithmetic\<close>

lemma ledger_invariant_new:
  "ledger_invariant (Customer_of (new_customer_doc n i :: 'm::linordered_ab_group_add customer_doc))"
  by (simp add: ledger_invariant_def Customer_of_new_customer_doc)

lemma ledger_invariant_top_up:
  fixes a :: "'m::linordered_ab_group_add"
  assumes "ledger_invariant (Customer_of d)" and "0 < a"
  shows "ledger_invariant (Customer_of
           (d\<lparr>d_total_top_up := Some (get_default (d_total_top_up d) 0 + a),
              d_balance := Some (get_default (d_balance d) 0 + a)\<rparr>))"
  using assms
  by (simp add: ledger_invariant_def Customer_of_top_up Customer_of_simps algebra_simps
      add_nonneg_nonneg less_imp_le)

lemma ledger_invariant_spend:
  fixes a :: "'m::linordered_ab_group_add"
  assumes "ledger_invariant (Customer_of d)" and "\<not> get_default (d_balance d) 0 < a"
  shows "ledger_invariant (Customer_of
           (d\<lparr>d_total_spent := Some (get_default (d_total_spent d) 0 + a),
              d_balance := Some (get_default (d_balance d) 0 - a)\<rparr>))"
  using assms
  by (simp add: ledger_invariant_def Customer_of_spend Customer_of_simps algebra_simps not_less)

lemma store_invariant_update:
  "store_invariant s \<Longrightarrow> ledger_invariant (Customer_of d) \<Longrightarrow>
   store_invariant (s\<lparr>customers := (customers s)(i \<mapsto> d)\<rparr>)"
  by (simp add: store_invariant_def)

lemma store_invariant_update_counter:
  "store_invariant s \<Longrightarrow> ledger_invariant (Customer_of d) \<Longrightarrow>
   store_invariant (s\<lparr>customers := (customers s)(i \<mapsto> d), counter := c\<rparr>)"
  by (simp add: store_invariant_def)

lemma store_invariant_lookup:
  "store_invariant s \<Longrightarrow> customers s i = Some d \<Longrightarrow> ledger_invariant (Customer_of d)"
  by (simp add: store_invariant_def)

lemma handle_preserves_invariant:
  fixes s :: "'m::linordered_ab_group_add store"
  assumes inv: "store_invariant s" and h: "handle r s = (out, s', tr)"
  shows "store_invariant s' \<and> (\<forall>c. out = Inr c \<longrightarrow> ledger_invariant c)"
proof (cases r)
  case (Create cd)
  with h have c: "create_customer cd s = (out, s', tr)" by simp
  show ?thesis
  proof (cases "customer_id cd = None \<or> customer_id cd = Some []")
    case True
    from c show ?thesis
      by (auto simp: create_allocated_closed [OF True] Let_def ledger_invariant_new
          intro!: store_invariant_update_counter [OF inv])
  next
    case False
    then obtain rid where rid: "customer_id cd = Some rid" "rid \<noteq> []" by auto
    from c inv show ?thesis
      by (auto simp: create_requested_closed [OF rid] ledger_invariant_new
          split: option.splits intro!: store_invariant_update)
  qed
next
  case (TopUp cid a)
  with h have c: "top_up_customer_balance cid a s = (out, s', tr)" by simp
  from c inv show ?thesis
    by (auto simp: top_up_closed split: if_splits option.splits
        intro!: store_invariant_update ledger_invariant_top_up
        dest: store_invariant_lookup)
next
  case (Spend cid a)
  with h have c: "spend_customer_balance cid a s = (out, s', tr)" by simp
  from c inv show ?thesis
    by (auto simp: spend_closed split: if_splits option.splits
        intro!: store_invariant_update ledger_invariant_spend
        dest: store_invariant_lookup)
qed

subsection \<open>The identifiers returned\<close>





subsection \<open>The sign of the balance in floating point\<close>

lemma nonneg_double: "(0 \<le> Double m e) = (0 \<le> m)"
  by (simp add: less_eq_double_def zero_double_def Let_def zero_le_mult_iff)

lemma pos_double: "(0 < Double m e) = (0 < m)"
  by (simp add: less_double_def zero_double_def Let_def zero_less_mult_iff)

lemma canonical_nonneg: "0 \<le> m \<Longrightarrow> 0 \<le> canonical m e"
  by (simp add: canonical_def Let_def nonneg_double pos_imp_zdiv_nonneg_iff)

lemma round53_nonneg: "0 \<le> m \<Longrightarrow> 0 \<le> round53 m e"
  by (auto simp: round53_def Let_def pos_imp_zdiv_nonneg_iff intro!: canonical_nonneg)

lemma double_zero_nonneg: "(0::double) \<le> 0"
  using nonneg_double [of 0 0] by (simp add: zero_double_def)

lemma double_add_nonneg:
  fixes a b :: double
  assumes "0 \<le> a" and "0 < b"
  shows "0 \<le> a + b"
proof -
  obtain ma ea where a: "a = Double ma ea" by (cases a)
  obtain mb eb where b: "b = Double mb eb" by (cases b)
  from assms have "0 \<le> ma" "0 < mb" by (simp_all add: a b nonneg_double pos_double)
  then show ?thesis
    by (simp add: a b plus_double_def Let_def round53_nonneg)
qed

lemma double_sub_nonneg:
  fixes a b :: double
  assumes "\<not> a < b"
  shows "0 \<le> a - b"
proof -
  obtain ma ea where a: "a = Double ma ea" by (cases a)
  obtain mb eb where b: "b = Double mb eb" by (cases b)
  from assms show ?thesis
    by (simp add: a b less_double_def minus_double_def Let_def round53_nonneg)
qed


lemma balance_nonneg_update:
  "balance_nonneg s \<Longrightarrow> 0 \<le> balance (Customer_of d) \<Longrightarrow>
   balance_nonneg (s\<lparr>customers := (customers s)(i \<mapsto> d)\<rparr>)"
  by (simp add: balance_nonneg_def)

lemma balance_nonneg_update_counter:
  "balance_nonneg s \<Longrightarrow> 0 \<le> balance (Customer_of d) \<Longrightarrow>
   balance_nonneg (s\<lparr>customers := (customers s)(i \<mapsto> d), counter := c\<rparr>)"
  by (simp add: balance_nonneg_def)

lemma balance_nonneg_lookup:
  "balance_nonneg s \<Longrightarrow> customers s i = Some d \<Longrightarrow> 0 \<le> get_default (d_balance d) 0"
  by (simp add: balance_nonneg_def Customer_of_simps)

lemma balance_new_customer_doc: "balance (Customer_of (new_customer_doc n i)) = 0"
  by (simp add: Customer_of_new_customer_doc)

lemma handle_preserves_nonneg:
  fixes s :: "'m::{zero,plus,minus,ord} store"
  assumes z: "(0::'m) \<le> 0"
    and add: "\<And>a b::'m. 0 \<le> a \<Longrightarrow> 0 < b \<Longrightarrow> 0 \<le> a + b"
    and sub: "\<And>a b::'m. \<not> a < b \<Longrightarrow> 0 \<le> a - b"
    and inv: "balance_nonneg s" and h: "handle r s = (out, s', tr)"
  shows "balance_nonneg s' \<and> (\<forall>c. out = Inr c \<longrightarrow> 0 \<le> balance c)"
proof (cases r)
  case (Create cd)
  with h have c: "create_customer cd s = (out, s', tr)" by simp
  have new: "\<And>n i. 0 \<le> balance (Customer_of (new_customer_doc n i :: 'm customer_doc))"
    by (simp add: balance_new_customer_doc z)
  show ?thesis
  proof (cases "customer_id cd = None \<or> customer_id cd = Some []")
    case True
    from c have "s' = s\<lparr>customers := (customers s)
          (''GOD-'' @ format_04d (counter_value s + 1) \<mapsto>
             new_customer_doc (name cd) (''GOD-'' @ format_04d (counter_value s + 1))),
          counter := Some (get_default (counter s) \<lparr>current_value = Some 0\<rparr>
                            \<lparr>current_value := Some (counter_value s + 1)\<rparr>)\<rparr>"
      and "out = Inr (Customer_of (new_customer_doc (name cd)
          (''GOD-'' @ format_04d (counter_value s + 1))))"
      by (simp_all add: create_allocated_closed [OF True] Let_def)
    then show ?thesis
      using balance_nonneg_update_counter [OF inv new] new by simp
  next
    case False
    then obtain rid where rid: "customer_id cd = Some rid" "rid \<noteq> []" by auto
    show ?thesis
    proof (cases "customers s rid")
      case None
      from c have "s' = s\<lparr>customers := (customers s)(rid \<mapsto> new_customer_doc (name cd) rid)\<rparr>"
        and "out = Inr (Customer_of (new_customer_doc (name cd) rid))"
        by (simp_all add: create_requested_fresh [OF rid None])
      then show ?thesis using balance_nonneg_update [OF inv new] new by simp
    next
      case (Some d)
      from c have "s' = s" and "out = Inl AlreadyExists"
        by (simp_all add: create_requested_exists [OF rid Some])
      then show ?thesis using inv by simp
    qed
  qed
next
  case (TopUp cid a)
  with h have c: "top_up_customer_balance cid a s = (out, s', tr)" by simp
  show ?thesis
  proof (cases "0 < a \<and> customers s cid \<noteq> None")
    case True
    then obtain d where d: "customers s cid = Some d" and pos: "0 < a" by auto
    let ?d' = "d\<lparr>d_total_top_up := Some (get_default (d_total_top_up d) 0 + a),
                  d_balance := Some (get_default (d_balance d) 0 + a)\<rparr>"
    from balance_nonneg_lookup [OF inv d] pos
    have "0 \<le> get_default (d_balance d) 0 + a" by (rule add)
    then have nn: "0 \<le> balance (Customer_of ?d')"
      by (simp add: Customer_of_simps get_default_def)
    from c d pos have "s' = s\<lparr>customers := (customers s)(cid \<mapsto> ?d')\<rparr>"
      and "out = Inr (Customer_of ?d')"
      by (simp_all add: top_up_closed)
    then show ?thesis using balance_nonneg_update [OF inv nn] nn by simp
  next
    case False
    with c have "s' = s" and "\<forall>c. out \<noteq> Inr c"
      by (auto simp: top_up_closed split: if_splits option.splits)
    then show ?thesis using inv by simp
  qed
next
  case (Spend cid a)
  with h have c: "spend_customer_balance cid a s = (out, s', tr)" by simp
  show ?thesis
  proof (cases "0 < a \<and> customers s cid \<noteq> None \<and>
      \<not> get_default (d_balance (the (customers s cid))) 0 < a")
    case True
    then obtain d where d: "customers s cid = Some d" and pos: "0 < a"
      and ok: "\<not> get_default (d_balance d) 0 < a" by auto
    let ?d' = "d\<lparr>d_total_spent := Some (get_default (d_total_spent d) 0 + a),
                  d_balance := Some (get_default (d_balance d) 0 - a)\<rparr>"
    from ok have "0 \<le> get_default (d_balance d) 0 - a" by (rule sub)
    then have nn: "0 \<le> balance (Customer_of ?d')"
      by (simp add: Customer_of_simps get_default_def)
    from c d pos ok have "s' = s\<lparr>customers := (customers s)(cid \<mapsto> ?d')\<rparr>"
      and "out = Inr (Customer_of ?d')"
      by (simp_all add: spend_closed)
    then show ?thesis using balance_nonneg_update [OF inv nn] nn by simp
  next
    case False
    with c have "s' = s" and "\<forall>c. out \<noteq> Inr c"
      by (auto simp: spend_closed split: if_splits option.splits)
    then show ?thesis using inv by simp
  qed
qed

lemma serve_preserves_nonneg:
  fixes s :: "'m::{zero,plus,minus,ord} store"
  assumes z: "(0::'m) \<le> 0"
    and add: "\<And>a b::'m. 0 \<le> a \<Longrightarrow> 0 < b \<Longrightarrow> 0 \<le> a + b"
    and sub: "\<And>a b::'m. \<not> a < b \<Longrightarrow> 0 \<le> a - b"
  shows "balance_nonneg s \<Longrightarrow> serve rs s = (outs, s', tr) \<Longrightarrow>
     balance_nonneg s' \<and> (\<forall>c. Inr c \<in> set outs \<longrightarrow> 0 \<le> balance c)"
proof (induction rs arbitrary: s outs s' tr)
  case Nil
  then show ?case by simp
next
  case (Cons r rs)
  obtain out s1 tr1 where h: "handle r s = (out, s1, tr1)" by (cases "handle r s") auto
  obtain outs2 s2 tr2 where sv: "serve rs s1 = (outs2, s2, tr2)" by (cases "serve rs s1") auto
  from Cons.prems(2) h sv have o: "outs = out # outs2" and s': "s' = s2" by simp_all
  from handle_preserves_nonneg [OF z add sub Cons.prems(1) h]
  have i1: "balance_nonneg s1" and o1: "\<forall>c. out = Inr c \<longrightarrow> 0 \<le> balance c" by simp_all
  from Cons.IH [OF i1 sv]
  have "balance_nonneg s2" and "\<forall>c. Inr c \<in> set outs2 \<longrightarrow> 0 \<le> balance c" by simp_all
  with o1 show ?case by (auto simp: o s')
qed

lemma serve_preserves_nonneg_double:
  fixes s :: "double store"
  assumes "balance_nonneg s" and "serve rs s = (outs, s', tr)"
  shows "balance_nonneg s' \<and> (\<forall>c. Inr c \<in> set outs \<longrightarrow> 0 \<le> balance c)"
  using double_zero_nonneg double_add_nonneg double_sub_nonneg assms
  by (rule serve_preserves_nonneg)

lemma serve_preserves_invariant:
  fixes s :: "'m::linordered_ab_group_add store"
  assumes "store_invariant s" and "serve rs s = (outs, s', tr)"
  shows "store_invariant s' \<and> (\<forall>c. Inr c \<in> set outs \<longrightarrow> ledger_invariant c)"
  using assms
proof (induction rs arbitrary: s outs s' tr)
  case Nil
  then show ?case by simp
next
  case (Cons r rs)
  obtain out s1 tr1 where h: "handle r s = (out, s1, tr1)" by (cases "handle r s") auto
  obtain outs2 s2 tr2 where sv: "serve rs s1 = (outs2, s2, tr2)" by (cases "serve rs s1") auto
  from Cons.prems(2) h sv have o: "outs = out # outs2" and s': "s' = s2" by simp_all
  from handle_preserves_invariant [OF Cons.prems(1) h]
  have i1: "store_invariant s1" and o1: "\<forall>c. out = Inr c \<longrightarrow> ledger_invariant c" by simp_all
  from Cons.IH [OF i1 sv]
  have "store_invariant s2" and "\<forall>c. Inr c \<in> set outs2 \<longrightarrow> ledger_invariant c" by simp_all
  with o1 show ?case by (auto simp: o s')
qed

subsection \<open>Two concurrent top-ups\<close>

lemma step_call_Pending:
  "step_call body sh (Pending n) = (Reading n (current sh) (versions sh), sh)"
  by (simp add: step_call_def)

lemma step_call_Finished: "step_call body sh (Finished n r) = (Finished n r, sh)"
  by (simp add: step_call_def)

lemma step_call_conflict:
  "customers snap cid = Some dj \<Longrightarrow> versions sh (CustomerRef cid) \<noteq> vs (CustomerRef cid) \<Longrightarrow>
   step_call (top_up_in_transaction cid amount) sh (Reading n snap vs) = (Pending (Suc n), sh)"
  by (simp add: step_call_def top_up_in_transaction_def get_customer_def put_def Let_def)

lemma step_call_commit:
  "customers snap cid = Some d \<Longrightarrow> customers (current sh) cid = Some d \<Longrightarrow>
   versions sh (CustomerRef cid) = vs (CustomerRef cid) \<Longrightarrow>
   step_call (top_up_in_transaction cid amount) sh (Reading n snap vs) =
     (Finished n (Inr (Customer_of (topped_up amount d))),
      \<lparr>current = (current sh)\<lparr>customers := (customers (current sh))(cid \<mapsto> topped_up amount d)\<rparr>,
       versions = (versions sh)(CustomerRef cid := Suc (versions sh (CustomerRef cid)))\<rparr>)"
  by (auto simp: step_call_def top_up_in_transaction_def get_customer_def put_def Let_def
      topped_up_def apply_update_def bump_def fun_eq_iff)


lemma finished_le_1: "finished c \<le> 1"
  by (cases c) simp_all

lemma race_step_A:
  fixes amount :: "'m::{zero,plus}"
  assumes inv: "race_invariant cid amount d (sh, a, b)"
  shows "race_invariant cid amount d (turn_step (top_up_in_transaction cid amount) A (sh, a, b))
       \<and> turns_left (fst (snd (turn_step (top_up_in_transaction cid amount) A (sh, a, b))))
            \<le> turns_left a - 1
       \<and> snd (snd (turn_step (top_up_in_transaction cid amount) A (sh, a, b))) = b"
proof (cases a)
  case (Pending n)
  with inv show ?thesis
    by (auto simp: race_invariant_def step_call_Pending)
next
  case (Finished n r)
  with inv show ?thesis
    by (auto simp: race_invariant_def step_call_Finished)
next
  case (Reading n snap vs)
  let ?k = "finished b"
  from inv Reading have
    cur: "customers (current sh) cid = Some ((topped_up amount ^^ ?k) d)" and
    ver: "versions sh (CustomerRef cid) = ?k" and
    cf: "n + conflicts b \<le> 1" and
    n1: "n = 1 \<longrightarrow> ?k = 1 \<and> vs (CustomerRef cid) = ?k" and
    le: "vs (CustomerRef cid) \<le> ?k" and
    snap: "customers snap cid = Some ((topped_up amount ^^ vs (CustomerRef cid)) d)" and
    okb: "call_ok cid amount d ?k 0 b"
    by (simp_all add: race_invariant_def)
  show ?thesis
  proof (cases "vs (CustomerRef cid) = ?k")
    case True
    from snap True have snap': "customers snap cid = Some ((topped_up amount ^^ ?k) d)" by simp
    from ver True have v: "versions sh (CustomerRef cid) = vs (CustomerRef cid)" by simp
    have okb': "call_ok cid amount d (Suc ?k) 1 b"
      using okb cf by (cases b) auto
    show ?thesis
      using step_call_commit [where snap=snap and cid=cid and sh=sh and vs=vs and amount=amount
          and n=n, OF snap' cur v] ver n1 cf okb'
      by (auto simp: race_invariant_def Reading)
  next
    case False
    with ver have v: "versions sh (CustomerRef cid) \<noteq> vs (CustomerRef cid)" by simp
    from False le have lt: "vs (CustomerRef cid) < ?k" by simp
    with finished_le_1 [of b] have fb: "?k = 1" by simp
    from False n1 have n0: "n = 0" using cf by auto
    from okb cf have cb0: "conflicts b = 0" by (cases b) auto
    show ?thesis
      using step_call_conflict [where snap=snap and cid=cid and sh=sh and vs=vs and amount=amount
          and n=n, OF snap v] inv fb n0 cb0
      by (auto simp: race_invariant_def Reading)
  qed
qed


lemma race_invariant_swap:
  "race_invariant cid amount d (sh, a, b) = race_invariant cid amount d (sh, b, a)"
  by (auto simp: race_invariant_def add.commute)

lemma turn_step_B:
  "turn_step body B (sh, a, b) =
     (case turn_step body A (sh, b, a) of (sh', b', a') \<Rightarrow> (sh', a', b'))"
  by (simp split: prod.splits)

lemma race_step_B:
  fixes amount :: "'m::{zero,plus}"
  assumes inv: "race_invariant cid amount d (sh, a, b)"
  shows "race_invariant cid amount d (turn_step (top_up_in_transaction cid amount) B (sh, a, b))
       \<and> turns_left (snd (snd (turn_step (top_up_in_transaction cid amount) B (sh, a, b))))
            \<le> turns_left b - 1
       \<and> fst (snd (turn_step (top_up_in_transaction cid amount) B (sh, a, b))) = a"
proof -
  obtain sh' b' a' where st: "turn_step (top_up_in_transaction cid amount) A (sh, b, a) = (sh', b', a')"
    by (cases "turn_step (top_up_in_transaction cid amount) A (sh, b, a)") auto
  from inv have "race_invariant cid amount d (sh, b, a)" by (simp only: race_invariant_swap)
  from race_step_A [OF this]
  have i: "race_invariant cid amount d (sh', b', a')" and t: "turns_left b' \<le> turns_left b - 1"
    and a': "a' = a" unfolding st by auto
  have r: "turn_step (top_up_in_transaction cid amount) B (sh, a, b) = (sh', a', b')"
    by (simp add: turn_step_B st del: turn_step.simps)
  from i have "race_invariant cid amount d (sh', a', b')" by (simp only: race_invariant_swap)
  with t a' show ?thesis by (simp add: r del: turn_step.simps)
qed

lemma race_interleave:
  fixes amount :: "'m::{zero,plus}"
  shows "race_invariant cid amount d st \<Longrightarrow>
     race_invariant cid amount d (interleave (top_up_in_transaction cid amount) ts st)
   \<and> turns_left (fst (snd (interleave (top_up_in_transaction cid amount) ts st)))
        \<le> turns_left (fst (snd st)) - count_list ts A
   \<and> turns_left (snd (snd (interleave (top_up_in_transaction cid amount) ts st)))
        \<le> turns_left (snd (snd st)) - count_list ts B"
proof (induction ts arbitrary: st)
  case Nil
  then show ?case by simp
next
  case (Cons t ts)
  obtain sh a b where st: "st = (sh, a, b)" by (cases st) auto
  let ?body = "top_up_in_transaction cid amount"
  let ?st1 = "turn_step ?body t st"
  show ?case
  proof (cases t)
    case A
    from race_step_A [of cid amount d sh a b] Cons.prems
    have i1: "race_invariant cid amount d ?st1"
      and a1: "turns_left (fst (snd ?st1)) \<le> turns_left a - 1"
      and b1: "snd (snd ?st1) = b"
      by (simp_all add: st A del: turn_step.simps)
    from Cons.IH [OF i1]
    have i2: "race_invariant cid amount d (interleave ?body ts ?st1)"
      and a2: "turns_left (fst (snd (interleave ?body ts ?st1)))
                 \<le> turns_left (fst (snd ?st1)) - count_list ts A"
      and b2: "turns_left (snd (snd (interleave ?body ts ?st1)))
                 \<le> turns_left (snd (snd ?st1)) - count_list ts B"
      by simp_all
    from a2 a1 have "turns_left (fst (snd (interleave ?body ts ?st1)))
                 \<le> turns_left a - Suc (count_list ts A)" by linarith
    with i2 b2 b1 show ?thesis
      by (simp add: A st del: turn_step.simps)
  next
    case B
    from race_step_B [of cid amount d sh a b] Cons.prems
    have i1: "race_invariant cid amount d ?st1"
      and b1: "turns_left (snd (snd ?st1)) \<le> turns_left b - 1"
      and a1: "fst (snd ?st1) = a"
      by (simp_all add: st B del: turn_step.simps)
    from Cons.IH [OF i1]
    have i2: "race_invariant cid amount d (interleave ?body ts ?st1)"
      and a2: "turns_left (fst (snd (interleave ?body ts ?st1)))
                 \<le> turns_left (fst (snd ?st1)) - count_list ts A"
      and b2: "turns_left (snd (snd (interleave ?body ts ?st1)))
                 \<le> turns_left (snd (snd ?st1)) - count_list ts B"
      by simp_all
    from b2 b1 have "turns_left (snd (snd (interleave ?body ts ?st1)))
                 \<le> turns_left b - Suc (count_list ts B)" by linarith
    with i2 a2 a1 show ?thesis
      by (simp add: B st del: turn_step.simps)
  qed
qed

lemma race_invariant_initial:
  "customers s cid = Some d \<Longrightarrow>
   race_invariant cid amount d (\<lparr>current = s, versions = (\<lambda>r. 0)\<rparr>, Pending 0, Pending 0)"
  by (simp add: race_invariant_def)

lemma turns_left_0: "conflicts c \<le> 1 \<Longrightarrow> turns_left c = 0 \<Longrightarrow> finished c = 1"
  by (cases c) auto

lemma call_ok_result:
  "call_ok cid amount d k other c \<Longrightarrow> k \<le> 2 \<Longrightarrow> result c = Some r \<Longrightarrow>
   r = Inr (Customer_of (topped_up amount d)) \<or>
   r = Inr (Customer_of (topped_up amount (topped_up amount d)))"
proof (cases c)
  case (Finished n r')
  assume "call_ok cid amount d k other c" and k: "k \<le> 2" and "result c = Some r"
  with Finished obtain j where "1 \<le> j" "j \<le> k"
    and r: "r = Inr (Customer_of ((topped_up amount ^^ j) d))" by auto
  with k have "j = 1 \<or> j = 2" by auto
  then show ?thesis using r by (auto simp: numeral_2_eq_2)
qed simp_all

lemma two_top_ups_overlap:
  fixes amount :: "'m::{zero,plus}"
  assumes "customers s cid = Some d"
  shows "(case two_top_ups cid amount [A, B, A, B] s of (sh, a, b) \<Rightarrow>
         a = Finished 0 (Inr (Customer_of (topped_up amount d))) \<and> b = Pending 1
       \<and> customers (current sh) cid = Some (topped_up amount d))"
    and "(case two_top_ups cid amount [A, B, A, B, B, B] s of (sh, a, b) \<Rightarrow>
         a = Finished 0 (Inr (Customer_of (topped_up amount d)))
       \<and> b = Finished 1 (Inr (Customer_of (topped_up amount (topped_up amount d))))
       \<and> customers (current sh) cid = Some (topped_up amount (topped_up amount d)))"
  using assms
  by (simp_all add: two_top_ups_def step_call_def top_up_in_transaction_def get_customer_def
      put_def Let_def topped_up_def apply_update_def bump_def)

section \<open>Properties\<close>



text \<open>
  C4. Given the counter value \<open>current\<close> (not negative) at the snapshot, the allocator
  computes \<open>next = current + 1\<close>, schedules the update of the counter to \<open>next\<close> as the
  last write of the same transaction, and returns \<open>GOD-\<close> followed by the decimal digits
  of \<open>next\<close>, padded with zeros to four digits; beyond 9999 nothing is padded. On an
  absent counter the allocator returns \<open>GOD-0001\<close>, and the first create request without
  identifier gets \<open>GOD-0001\<close>, the second \<open>GOD-0002\<close>.
\<close>

theorem allocator_formats_next:
  fixes t :: "'m::zero transaction"
  assumes "0 \<le> counter_value (snapshot t)"
  shows "fst (generate_sequential_customer_id t) =
           ''GOD-'' @ replicate (4 - length (dec_digits (nat (counter_value (snapshot t) + 1)))) CHR ''0''
             @ dec_digits (nat (counter_value (snapshot t) + 1))
       \<and> decimal_value (dec_digits (nat (counter_value (snapshot t) + 1)))
           = nat (counter_value (snapshot t) + 1)
       \<and> (9999 < counter_value (snapshot t) + 1 \<longrightarrow>
            fst (generate_sequential_customer_id t) =
              ''GOD-'' @ dec_digits (nat (counter_value (snapshot t) + 1)))
       \<and> last (writes (snd (generate_sequential_customer_id t)))
           = UpdateCounter (counter_value (snapshot t) + 1)
       \<and> snapshot (snd (generate_sequential_customer_id t)) = snapshot t
       \<and> (counter (snapshot t) = None \<longrightarrow>
            fst (generate_sequential_customer_id t) = ''GOD-0001'' \<and>
            fst (create_customer \<lparr>name = n1, customer_id = None\<rparr> (snapshot t))
              = Inr (Customer_of (new_customer_doc n1 ''GOD-0001'')) \<and>
            fst (create_customer \<lparr>name = n2, customer_id = None\<rparr>
                  (fst (snd (create_customer \<lparr>name = n1, customer_id = None\<rparr> (snapshot t)))))
              = Inr (Customer_of (new_customer_doc n2 ''GOD-0002'')))"
proof -
  let ?n = "counter_value (snapshot t) + 1"
  have nn: "0 \<le> ?n" using assms by simp
  have id: "fst (generate_sequential_customer_id t) = ''GOD-'' @ format_04d ?n"
    by (simp add: generate_sequential_customer_id_eq)
  have fmt: "format_04d ?n = replicate (4 - length (dec_digits (nat ?n))) CHR ''0'' @ dec_digits (nat ?n)"
    using nn by (rule format_04d_nonneg)
  have c1: "fst (generate_sequential_customer_id t) =
           ''GOD-'' @ replicate (4 - length (dec_digits (nat ?n))) CHR ''0'' @ dec_digits (nat ?n)"
    by (simp only: id fmt)
  have c2: "decimal_value (dec_digits (nat ?n)) = nat ?n" by (rule decimal_value_dec_digits)
  have c3: "9999 < ?n \<longrightarrow> fst (generate_sequential_customer_id t) = ''GOD-'' @ dec_digits (nat ?n)"
  proof
    assume "9999 < ?n"
    then have "1000 \<le> nat ?n" by simp
    then have "4 \<le> length (dec_digits (nat ?n))" by (rule length_dec_digits_4)
    then show "fst (generate_sequential_customer_id t) = ''GOD-'' @ dec_digits (nat ?n)"
      by (simp add: c1)
  qed
  have c4: "last (writes (snd (generate_sequential_customer_id t))) = UpdateCounter ?n"
    by (simp add: generate_sequential_customer_id_eq)
  have c5: "snapshot (snd (generate_sequential_customer_id t)) = snapshot t"
    by (simp add: generate_sequential_customer_id_eq)
  have c6: "counter (snapshot t) = None \<longrightarrow>
            fst (generate_sequential_customer_id t) = ''GOD-0001'' \<and>
            fst (create_customer \<lparr>name = n1, customer_id = None\<rparr> (snapshot t))
              = Inr (Customer_of (new_customer_doc n1 ''GOD-0001'')) \<and>
            fst (create_customer \<lparr>name = n2, customer_id = None\<rparr>
                  (fst (snd (create_customer \<lparr>name = n1, customer_id = None\<rparr> (snapshot t)))))
              = Inr (Customer_of (new_customer_doc n2 ''GOD-0002''))"
  proof
    assume none: "counter (snapshot t) = None"
    then have cv: "counter_value (snapshot t) = 0" by (simp add: counter_value_def)
    have cv1: "counter_value (fst (snd (create_customer \<lparr>name = n1, customer_id = None\<rparr> (snapshot t)))) = 1"
      by (simp add: counter_value_after_allocation cv)
    show "fst (generate_sequential_customer_id t) = ''GOD-0001'' \<and>
            fst (create_customer \<lparr>name = n1, customer_id = None\<rparr> (snapshot t))
              = Inr (Customer_of (new_customer_doc n1 ''GOD-0001'')) \<and>
            fst (create_customer \<lparr>name = n2, customer_id = None\<rparr>
                  (fst (snd (create_customer \<lparr>name = n1, customer_id = None\<rparr> (snapshot t)))))
              = Inr (Customer_of (new_customer_doc n2 ''GOD-0002''))"
      by (simp add: id create_allocated_result cv cv1 format_04d_1 format_04d_2)
  qed
  from c1 c2 c3 c4 c5 c6 show ?thesis by blast
qed

theorem allocator_formats_next_witness:
  "0 \<le> counter_value (snapshot (\<lparr>snapshot = \<lparr>customers = Map.empty, counter = Some \<lparr>current_value = Some 41\<rparr>\<rparr>,
        reads = [], writes = []\<rparr> :: int transaction))
   \<and> fst (generate_sequential_customer_id (\<lparr>snapshot = \<lparr>customers = Map.empty, counter = Some \<lparr>current_value = Some 41\<rparr>\<rparr>,
        reads = [], writes = []\<rparr> :: int transaction)) = ''GOD-0042''
   \<and> last (writes (snd (generate_sequential_customer_id (\<lparr>snapshot = \<lparr>customers = Map.empty, counter = Some \<lparr>current_value = Some 41\<rparr>\<rparr>,
        reads = [], writes = []\<rparr> :: int transaction)))) = UpdateCounter 42"
proof -
  let ?t = "\<lparr>snapshot = \<lparr>customers = Map.empty, counter = Some \<lparr>current_value = Some 41\<rparr>\<rparr>,
        reads = [], writes = []\<rparr> :: int transaction"
  have h: "0 \<le> counter_value (snapshot ?t)" by code_simp
  have ev: "fst (generate_sequential_customer_id ?t) = ''GOD-0042''" by code_simp
  have cv: "counter_value (snapshot ?t) + 1 = 42" by code_simp
  from allocator_formats_next [OF h]
  have "last (writes (snd (generate_sequential_customer_id ?t)))
          = UpdateCounter (counter_value (snapshot ?t) + 1)"
    by blast
  then have "last (writes (snd (generate_sequential_customer_id ?t))) = UpdateCounter 42"
    by (simp only: cv)
  with h ev show ?thesis by blast
qed

text \<open>
  C5. For every amount greater than zero, a top-up of an absent customer fails with
  \<open>NotFound\<close> (nothing is written). On an existing customer it sets \<open>total_top_up\<close> to
  \<open>total_top_up + amount\<close> and \<open>balance\<close> to \<open>balance + amount\<close> by one update in one
  committed transaction, and the returned record is the record of the snapshot with exactly
  these two fields replaced; the transaction reads the document once.
\<close>

theorem top_up_adds_amount:
  fixes amount :: "'m::{zero,plus,ord}"
  assumes "0 < amount"
  shows "(customers s cid = None \<longrightarrow>
            top_up_customer_balance cid amount s =
              (Inl NotFound, s,
               [BeginTransaction, ReadDocument (CustomerRef cid), RollbackTransaction]))
       \<and> (\<forall>d. customers s cid = Some d \<longrightarrow>
            top_up_customer_balance cid amount s =
              (Inr ((Customer_of d)
                     \<lparr>total_top_up := total_top_up (Customer_of d) + amount,
                      balance := balance (Customer_of d) + amount\<rparr>),
               s\<lparr>customers := (customers s)(cid \<mapsto>
                    d\<lparr>d_total_top_up := Some (total_top_up (Customer_of d) + amount),
                      d_balance := Some (balance (Customer_of d) + amount)\<rparr>)\<rparr>,
               [BeginTransaction, ReadDocument (CustomerRef cid),
                WriteDocument (UpdateCustomer cid
                  \<lparr>u_total_top_up = Some (total_top_up (Customer_of d) + amount),
                   u_total_spent = None,
                   u_balance = Some (balance (Customer_of d) + amount)\<rparr>),
                CommitTransaction]))"
  using assms by (simp add: top_up_closed Customer_of_top_up Customer_of_simps)

theorem top_up_adds_amount_witness:
  "0 < (100::int)
   \<and> top_up_customer_balance ''nobody'' 100 example_store =
       (Inl NotFound, example_store,
        [BeginTransaction, ReadDocument (CustomerRef ''nobody''), RollbackTransaction])
   \<and> fst (top_up_customer_balance ''GOD-0001'' 100 example_store) =
       Inr \<lparr>c_name = ''Alice'', c_customer_id = ''GOD-0001'', total_top_up = 200,
            total_spent = 40, balance = 160\<rparr>
   \<and> customers (fst (snd (top_up_customer_balance ''GOD-0001'' 100 example_store))) ''GOD-0001'' =
       Some \<lparr>d_name = ''Alice'', d_customer_id = ''GOD-0001'', d_total_top_up = Some 200,
             d_total_spent = Some 40, d_balance = Some 160\<rparr>"
proof -
  have h: "0 < (100::int)" by simp
  show ?thesis
    using top_up_adds_amount [OF h, of example_store "''nobody''"]
      top_up_adds_amount [OF h, of example_store "''GOD-0001''"]
    by (simp add: example_store_def Customer_of_def get_default_def)
qed

text \<open>
  C2. For every existing customer and every amount greater than zero, a spend fails with
  \<open>InsufficientBalance\<close> if and only if the balance of the snapshot is strictly less than
  the amount; on this failure the transaction is rolled back, nothing is written and the
  store is unchanged. Otherwise the spend sets \<open>total_spent\<close> to \<open>total_spent + amount\<close>
  and \<open>balance\<close> to \<open>balance - amount\<close> and returns the updated record.
\<close>

theorem spend_checks_balance:
  fixes amount :: "'m::{zero,plus,minus,ord}"
  assumes "0 < amount" and "customers s cid = Some d"
  shows "(fst (spend_customer_balance cid amount s) = Inl InsufficientBalance
            \<longleftrightarrow> balance (Customer_of d) < amount)
       \<and> (balance (Customer_of d) < amount \<longrightarrow>
            spend_customer_balance cid amount s =
              (Inl InsufficientBalance, s,
               [BeginTransaction, ReadDocument (CustomerRef cid), RollbackTransaction]))
       \<and> (\<not> balance (Customer_of d) < amount \<longrightarrow>
            spend_customer_balance cid amount s =
              (Inr ((Customer_of d)
                     \<lparr>total_spent := total_spent (Customer_of d) + amount,
                      balance := balance (Customer_of d) - amount\<rparr>),
               s\<lparr>customers := (customers s)(cid \<mapsto>
                    d\<lparr>d_total_spent := Some (total_spent (Customer_of d) + amount),
                      d_balance := Some (balance (Customer_of d) - amount)\<rparr>)\<rparr>,
               [BeginTransaction, ReadDocument (CustomerRef cid),
                WriteDocument (UpdateCustomer cid
                  \<lparr>u_total_top_up = None,
                   u_total_spent = Some (total_spent (Customer_of d) + amount),
                   u_balance = Some (balance (Customer_of d) - amount)\<rparr>),
                CommitTransaction]))"
  using assms by (simp add: spend_closed Customer_of_spend Customer_of_simps)

theorem spend_checks_balance_witness:
  "0 < (1000::int) \<and> 0 < (40::int)
   \<and> customers example_store ''GOD-0001'' =
       Some \<lparr>d_name = ''Alice'', d_customer_id = ''GOD-0001'', d_total_top_up = Some 100,
             d_total_spent = Some 40, d_balance = Some 60\<rparr>
   \<and> spend_customer_balance ''GOD-0001'' 1000 example_store =
       (Inl InsufficientBalance, example_store,
        [BeginTransaction, ReadDocument (CustomerRef ''GOD-0001''), RollbackTransaction])
   \<and> fst (spend_customer_balance ''GOD-0001'' 40 example_store) =
       Inr \<lparr>c_name = ''Alice'', c_customer_id = ''GOD-0001'', total_top_up = 100,
            total_spent = 80, balance = 20\<rparr>
   \<and> customers (fst (snd (spend_customer_balance ''GOD-0001'' 40 example_store))) ''GOD-0001'' =
       Some \<lparr>d_name = ''Alice'', d_customer_id = ''GOD-0001'', d_total_top_up = Some 100,
             d_total_spent = Some 80, d_balance = Some 20\<rparr>"
proof -
  have h1: "0 < (1000::int)" and h2: "0 < (40::int)" by simp_all
  have d: "customers example_store ''GOD-0001'' =
       Some \<lparr>d_name = ''Alice'', d_customer_id = ''GOD-0001'', d_total_top_up = Some 100,
             d_total_spent = Some 40, d_balance = Some 60\<rparr>"
    by (simp add: example_store_def)
  show ?thesis
    using spend_checks_balance [OF h1 d] spend_checks_balance [OF h2 d] d
    by (simp add: Customer_of_def get_default_def)
qed

text \<open>
  C8. A top-up or spend request with an amount less than or equal to zero is rejected
  before any transaction begins: the store is unchanged and the request makes no round
  trip to the store, neither a read nor a write.
\<close>

theorem nonpositive_amount_rejected:
  fixes amount :: "'m::{zero,plus,minus,preorder}"
  assumes "amount \<le> 0"
  shows "top_up_customer_balance cid amount s = (Inl RequestValidationError, s, [])
       \<and> spend_customer_balance cid amount s = (Inl RequestValidationError, s, [])"
proof -
  from assms have "\<not> 0 < amount" by (simp add: less_le_not_le)
  then show ?thesis by (simp add: top_up_closed spend_closed)
qed

theorem nonpositive_amount_rejected_witness:
  "(0::int) \<le> 0 \<and> (- 5::int) \<le> 0
   \<and> top_up_customer_balance ''GOD-0001'' 0 example_store
       = (Inl RequestValidationError, example_store, [])
   \<and> spend_customer_balance ''GOD-0001'' (- 5) example_store
       = (Inl RequestValidationError, example_store, [])"
proof -
  have h1: "(0::int) \<le> 0" and h2: "(- 5::int) \<le> 0" by simp_all
  show ?thesis
    using nonpositive_amount_rejected [OF h1, of "''GOD-0001''" example_store]
      nonpositive_amount_rejected [OF h2, of "''GOD-0001''" example_store]
    by simp
qed

text \<open>
  C10. A successful top-up writes only the fields \<open>total_top_up\<close> and \<open>balance\<close>, and a
  successful spend only the fields \<open>total_spent\<close> and \<open>balance\<close>, of the customer document
  it targets: its trace holds one write, an update of that document naming these two
  fields; the counter and all other documents are unchanged; \<open>name\<close> and \<open>customer_id\<close>
  are unchanged, a top-up leaves \<open>total_spent\<close> and a spend leaves \<open>total_top_up\<close> as it
  was, in the store and in the returned record.
\<close>

theorem top_up_and_spend_frame:
  fixes amount :: "'m::{zero,plus,minus,ord}"
  shows "(top_up_customer_balance cid amount s = (Inr c, s', tr) \<longrightarrow>
            (\<exists>t b. written tr =
               [UpdateCustomer cid \<lparr>u_total_top_up = Some t, u_total_spent = None, u_balance = Some b\<rparr>])
          \<and> counter s' = counter s
          \<and> (\<forall>j. j \<noteq> cid \<longrightarrow> customers s' j = customers s j)
          \<and> (\<exists>d d'. customers s cid = Some d \<and> customers s' cid = Some d'
                \<and> d_name d' = d_name d \<and> d_customer_id d' = d_customer_id d
                \<and> d_total_spent d' = d_total_spent d
                \<and> c_name c = d_name d \<and> c_customer_id c = d_customer_id d
                \<and> total_spent c = total_spent (Customer_of d)))
       \<and> (spend_customer_balance cid amount s = (Inr c, s', tr) \<longrightarrow>
            (\<exists>t b. written tr =
               [UpdateCustomer cid \<lparr>u_total_top_up = None, u_total_spent = Some t, u_balance = Some b\<rparr>])
          \<and> counter s' = counter s
          \<and> (\<forall>j. j \<noteq> cid \<longrightarrow> customers s' j = customers s j)
          \<and> (\<exists>d d'. customers s cid = Some d \<and> customers s' cid = Some d'
                \<and> d_name d' = d_name d \<and> d_customer_id d' = d_customer_id d
                \<and> d_total_top_up d' = d_total_top_up d
                \<and> c_name c = d_name d \<and> c_customer_id c = d_customer_id d
                \<and> total_top_up c = total_top_up (Customer_of d)))"
proof (intro conjI impI)
  assume h: "top_up_customer_balance cid amount s = (Inr c, s', tr)"
  then obtain d where d: "customers s cid = Some d" and pos: "0 < amount"
    by (auto simp: top_up_closed split: if_splits option.splits)
  from h d pos have
    c: "c = Customer_of (d\<lparr>d_total_top_up := Some (get_default (d_total_top_up d) 0 + amount),
                   d_balance := Some (get_default (d_balance d) 0 + amount)\<rparr>)" and
    s': "s' = s\<lparr>customers := (customers s)(cid \<mapsto>
                d\<lparr>d_total_top_up := Some (get_default (d_total_top_up d) 0 + amount),
                  d_balance := Some (get_default (d_balance d) 0 + amount)\<rparr>)\<rparr>" and
    tr: "tr = [BeginTransaction, ReadDocument (CustomerRef cid),
           WriteDocument (UpdateCustomer cid
             \<lparr>u_total_top_up = Some (get_default (d_total_top_up d) 0 + amount),
              u_total_spent = None,
              u_balance = Some (get_default (d_balance d) 0 + amount)\<rparr>),
           CommitTransaction]"
    by (simp_all add: top_up_closed)
  show "\<exists>t b. written tr =
               [UpdateCustomer cid \<lparr>u_total_top_up = Some t, u_total_spent = None, u_balance = Some b\<rparr>]"
    by (simp add: tr)
  show "counter s' = counter s" by (simp add: s')
  show "\<forall>j. j \<noteq> cid \<longrightarrow> customers s' j = customers s j" by (simp add: s')
  show "\<exists>d d'. customers s cid = Some d \<and> customers s' cid = Some d'
                \<and> d_name d' = d_name d \<and> d_customer_id d' = d_customer_id d
                \<and> d_total_spent d' = d_total_spent d
                \<and> c_name c = d_name d \<and> c_customer_id c = d_customer_id d
                \<and> total_spent c = total_spent (Customer_of d)"
    by (simp add: d s' c Customer_of_def)
next
  assume h: "spend_customer_balance cid amount s = (Inr c, s', tr)"
  then obtain d where d: "customers s cid = Some d" and pos: "0 < amount"
    and ok: "\<not> get_default (d_balance d) 0 < amount"
    by (auto simp: spend_closed split: if_splits option.splits)
  from h d pos ok have
    c: "c = Customer_of (d\<lparr>d_total_spent := Some (get_default (d_total_spent d) 0 + amount),
                   d_balance := Some (get_default (d_balance d) 0 - amount)\<rparr>)" and
    s': "s' = s\<lparr>customers := (customers s)(cid \<mapsto>
                d\<lparr>d_total_spent := Some (get_default (d_total_spent d) 0 + amount),
                  d_balance := Some (get_default (d_balance d) 0 - amount)\<rparr>)\<rparr>" and
    tr: "tr = [BeginTransaction, ReadDocument (CustomerRef cid),
           WriteDocument (UpdateCustomer cid
             \<lparr>u_total_top_up = None,
              u_total_spent = Some (get_default (d_total_spent d) 0 + amount),
              u_balance = Some (get_default (d_balance d) 0 - amount)\<rparr>),
           CommitTransaction]"
    by (simp_all add: spend_closed)
  show "\<exists>t b. written tr =
               [UpdateCustomer cid \<lparr>u_total_top_up = None, u_total_spent = Some t, u_balance = Some b\<rparr>]"
    by (simp add: tr)
  show "counter s' = counter s" by (simp add: s')
  show "\<forall>j. j \<noteq> cid \<longrightarrow> customers s' j = customers s j" by (simp add: s')
  show "\<exists>d d'. customers s cid = Some d \<and> customers s' cid = Some d'
                \<and> d_name d' = d_name d \<and> d_customer_id d' = d_customer_id d
                \<and> d_total_top_up d' = d_total_top_up d
                \<and> c_name c = d_name d \<and> c_customer_id c = d_customer_id d
                \<and> total_top_up c = total_top_up (Customer_of d)"
    by (simp add: d s' c Customer_of_def)
qed

theorem top_up_and_spend_frame_witness:
  "fst (top_up_customer_balance ''GOD-0001'' 100 example_store) =
       Inr \<lparr>c_name = ''Alice'', c_customer_id = ''GOD-0001'', total_top_up = 200,
            total_spent = 40, balance = 160\<rparr>
   \<and> written (snd (snd (top_up_customer_balance ''GOD-0001'' 100 example_store))) =
       [UpdateCustomer ''GOD-0001''
          \<lparr>u_total_top_up = Some 200, u_total_spent = None, u_balance = Some 160\<rparr>]
   \<and> counter (fst (snd (top_up_customer_balance ''GOD-0001'' 100 example_store)))
       = counter example_store
   \<and> fst (spend_customer_balance ''GOD-0001'' 40 example_store) =
       Inr \<lparr>c_name = ''Alice'', c_customer_id = ''GOD-0001'', total_top_up = 100,
            total_spent = 80, balance = 20\<rparr>
   \<and> written (snd (snd (spend_customer_balance ''GOD-0001'' 40 example_store))) =
       [UpdateCustomer ''GOD-0001''
          \<lparr>u_total_top_up = None, u_total_spent = Some 80, u_balance = Some 20\<rparr>]
   \<and> counter (fst (snd (spend_customer_balance ''GOD-0001'' 40 example_store)))
       = counter example_store"
proof -
  let ?t = "top_up_customer_balance ''GOD-0001'' 100 example_store"
  let ?s = "spend_customer_balance ''GOD-0001'' 40 example_store"
  let ?ct = "\<lparr>c_name = ''Alice'', c_customer_id = ''GOD-0001'', total_top_up = 200::int,
            total_spent = 40, balance = 160\<rparr>"
  let ?cs = "\<lparr>c_name = ''Alice'', c_customer_id = ''GOD-0001'', total_top_up = 100::int,
            total_spent = 80, balance = 20\<rparr>"
  have t1: "fst ?t = Inr ?ct" by code_simp
  have t2: "written (snd (snd ?t)) =
       [UpdateCustomer ''GOD-0001''
          \<lparr>u_total_top_up = Some 200, u_total_spent = None, u_balance = Some 160\<rparr>]"
    by code_simp
  have s1: "fst ?s = Inr ?cs" by code_simp
  have s2: "written (snd (snd ?s)) =
       [UpdateCustomer ''GOD-0001''
          \<lparr>u_total_top_up = None, u_total_spent = Some 80, u_balance = Some 20\<rparr>]"
    by code_simp
  have ht: "?t = (Inr ?ct, fst (snd ?t), snd (snd ?t))"
    using t1 by (metis prod.collapse)
  have hs: "?s = (Inr ?cs, fst (snd ?s), snd (snd ?s))"
    using s1 by (metis prod.collapse)
  from top_up_and_spend_frame [of "''GOD-0001''" 100 example_store ?ct "fst (snd ?t)" "snd (snd ?t)"] ht
  have t3: "counter (fst (snd ?t)) = counter example_store" by blast
  from top_up_and_spend_frame [of "''GOD-0001''" 40 example_store ?cs "fst (snd ?s)" "snd (snd ?s)"] hs
  have s3: "counter (fst (snd ?s)) = counter example_store" by blast
  from t1 t2 t3 s1 s2 s3 show ?thesis by blast
qed

text \<open>
  C6 (as amended). A successful create writes a document at the final identifier with the
  given name, \<open>total_top_up = 0\<close>, \<open>total_spent = 0\<close>, \<open>balance = 0\<close> and
  \<open>customer_id\<close> equal to that identifier, changes no other customer document, and
  returns exactly the record as written. When a requested identifier is supplied and is
  not empty, the final identifier is the requested one and no document existed at it
  before the call, so the document is new; otherwise the final identifier is the allocated
  one. The counter is incremented by the call if and only if the requested identifier is
  absent or is the empty string: the source tests \<open>if doc_id_to_use:\<close>, and an empty
  string is false in Python.
\<close>

theorem create_writes_new_document:
  fixes s :: "'m::zero store"
  assumes "create_customer cd s = (Inr c, s', tr)"
  shows "\<exists>final_id.
           final_id = (if customer_id cd = None \<or> customer_id cd = Some []
                       then ''GOD-'' @ format_04d (counter_value s + 1)
                       else the (customer_id cd))
         \<and> customers s' final_id =
             Some \<lparr>d_name = name cd, d_customer_id = final_id, d_total_top_up = Some 0,
                   d_total_spent = Some 0, d_balance = Some 0\<rparr>
         \<and> c = \<lparr>c_name = name cd, c_customer_id = final_id, total_top_up = 0,
                 total_spent = 0, balance = 0\<rparr>
         \<and> c = Customer_of (the (customers s' final_id))
         \<and> (\<forall>j. j \<noteq> final_id \<longrightarrow> customers s' j = customers s j)
         \<and> (customer_id cd \<noteq> None \<and> customer_id cd \<noteq> Some [] \<longrightarrow>
              customers s final_id = None \<and> final_id = the (customer_id cd))
         \<and> (counter_value s' = counter_value s + 1
              \<longleftrightarrow> customer_id cd = None \<or> customer_id cd = Some [])
         \<and> (counter s' \<noteq> counter s
              \<longleftrightarrow> customer_id cd = None \<or> customer_id cd = Some [])"
proof (cases "customer_id cd = None \<or> customer_id cd = Some []")
  case True
  let ?i = "''GOD-'' @ format_04d (counter_value s + 1)"
  from assms True have
    c: "c = Customer_of (new_customer_doc (name cd) ?i)" and
    s': "s' = s\<lparr>customers := (customers s)(?i \<mapsto> new_customer_doc (name cd) ?i),
          counter := Some (get_default (counter s) \<lparr>current_value = Some 0\<rparr>
                            \<lparr>current_value := Some (counter_value s + 1)\<rparr>)\<rparr>"
    by (simp_all add: create_allocated_closed Let_def)
  have cv: "counter_value s' = counter_value s + 1"
    by (simp add: s' counter_value_def get_default_def)
  then have ne: "counter s' \<noteq> counter s"
    by (auto simp: counter_value_def)
  have doc: "customers s' ?i = Some (new_customer_doc (name cd) ?i)" by (simp add: s')
  have oth: "\<forall>j. j \<noteq> ?i \<longrightarrow> customers s' j = customers s j" by (simp add: s')
  have nr: "\<not> (customer_id cd \<noteq> None \<and> customer_id cd \<noteq> Some [])"
    using True by auto
  show ?thesis
    using True cv ne doc oth nr
    by (simp add: c Customer_of_new_customer_doc) (auto simp: new_customer_doc_def)
next
  case False
  then obtain rid where rid: "customer_id cd = Some rid" "rid \<noteq> []" by auto
  from assms rid have none: "customers s rid = None"
    by (cases "customers s rid") (simp_all add: create_requested_closed)
  from assms create_requested_fresh [OF rid none] have
    c: "c = Customer_of (new_customer_doc (name cd) rid)" and
    s': "s' = s\<lparr>customers := (customers s)(rid \<mapsto> new_customer_doc (name cd) rid)\<rparr>"
    by simp_all
  have eq: "counter s' = counter s" by (simp add: s')
  then have cv: "counter_value s' = counter_value s" by (simp add: counter_value_def)
  have doc: "customers s' rid = Some (new_customer_doc (name cd) rid)" by (simp add: s')
  have oth: "\<forall>j. j \<noteq> rid \<longrightarrow> customers s' j = customers s j" by (simp add: s')
  show ?thesis
    using False rid cv eq doc oth none
    by (simp add: c Customer_of_new_customer_doc) (simp add: new_customer_doc_def)
qed

theorem create_writes_new_document_witness:
  "create_customer \<lparr>name = ''X'', customer_id = Some ''VIP-1''\<rparr> example_store =
     (Inr \<lparr>c_name = ''X'', c_customer_id = ''VIP-1'', total_top_up = 0, total_spent = 0,
           balance = 0\<rparr>,
      fst (snd (create_customer \<lparr>name = ''X'', customer_id = Some ''VIP-1''\<rparr> example_store)),
      snd (snd (create_customer \<lparr>name = ''X'', customer_id = Some ''VIP-1''\<rparr> example_store)))
   \<and> customers (fst (snd (create_customer \<lparr>name = ''X'', customer_id = Some ''VIP-1''\<rparr>
        example_store))) ''VIP-1'' =
       Some \<lparr>d_name = ''X'', d_customer_id = ''VIP-1'', d_total_top_up = Some 0,
             d_total_spent = Some 0, d_balance = Some 0\<rparr>
   \<and> counter (fst (snd (create_customer \<lparr>name = ''X'', customer_id = Some ''VIP-1''\<rparr>
        example_store))) = counter example_store
   \<and> customers example_store ''VIP-1'' = None
   \<and> create_customer \<lparr>name = ''Bob'', customer_id = None\<rparr> example_store =
     (Inr \<lparr>c_name = ''Bob'', c_customer_id = ''GOD-0002'', total_top_up = 0, total_spent = 0,
           balance = 0\<rparr>,
      fst (snd (create_customer \<lparr>name = ''Bob'', customer_id = None\<rparr> example_store)),
      snd (snd (create_customer \<lparr>name = ''Bob'', customer_id = None\<rparr> example_store)))
   \<and> customers (fst (snd (create_customer \<lparr>name = ''Bob'', customer_id = None\<rparr>
        example_store))) ''GOD-0002'' =
       Some \<lparr>d_name = ''Bob'', d_customer_id = ''GOD-0002'', d_total_top_up = Some 0,
             d_total_spent = Some 0, d_balance = Some 0\<rparr>
   \<and> counter_value (fst (snd (create_customer \<lparr>name = ''Bob'', customer_id = None\<rparr>
        example_store))) = counter_value example_store + 1"
proof -
  let ?a = "create_customer \<lparr>name = ''X'', customer_id = Some ''VIP-1''\<rparr> example_store"
  let ?b = "create_customer \<lparr>name = ''Bob'', customer_id = None\<rparr> example_store"
  let ?ca = "\<lparr>c_name = ''X'', c_customer_id = ''VIP-1'', total_top_up = 0::int, total_spent = 0,
           balance = 0\<rparr>"
  let ?cb = "\<lparr>c_name = ''Bob'', c_customer_id = ''GOD-0002'', total_top_up = 0::int, total_spent = 0,
           balance = 0\<rparr>"
  have a1: "fst ?a = Inr ?ca" by code_simp
  have b1: "fst ?b = Inr ?cb" by code_simp
  have ha: "?a = (Inr ?ca, fst (snd ?a), snd (snd ?a))" using a1 by (metis prod.collapse)
  have hb: "?b = (Inr ?cb, fst (snd ?b), snd (snd ?b))" using b1 by (metis prod.collapse)
  have f: "format_04d (counter_value example_store + 1) = ''0002''" by code_simp
  from create_writes_new_document [OF ha]
  have a2: "customers (fst (snd ?a)) ''VIP-1'' =
       Some \<lparr>d_name = ''X'', d_customer_id = ''VIP-1'', d_total_top_up = Some 0,
             d_total_spent = Some 0, d_balance = Some 0\<rparr>"
    and a3: "counter (fst (snd ?a)) = counter example_store"
    and a4: "customers example_store ''VIP-1'' = None"
    by simp_all
  from create_writes_new_document [OF hb]
  have b2: "customers (fst (snd ?b)) ''GOD-0002'' =
       Some \<lparr>d_name = ''Bob'', d_customer_id = ''GOD-0002'', d_total_top_up = Some 0,
             d_total_spent = Some 0, d_balance = Some 0\<rparr>"
    and b3: "counter_value (fst (snd ?b)) = counter_value example_store + 1"
    by (simp_all add: f)
  from ha a2 a3 a4 hb b2 b3 show ?thesis by blast
qed

text \<open>
  The claim as stated ("the counter is incremented if and only if no requested identifier
  was supplied") fails for a create request that supplies the empty string: the request
  succeeds with an allocated identifier and the counter is incremented.
\<close>

theorem create_counter_iff_no_requested_id_counterexample:
  "fst (create_customer \<lparr>name = ''X'', customer_id = Some ''''\<rparr> empty_store) =
     Inr \<lparr>c_name = ''X'', c_customer_id = ''GOD-0001'', total_top_up = 0, total_spent = 0,
          balance = 0\<rparr>
   \<and> \<not> (counter_value (fst (snd (create_customer \<lparr>name = ''X'', customer_id = Some ''''\<rparr>
          empty_store))) = counter_value empty_store + 1
        \<longleftrightarrow> customer_id \<lparr>name = ''X'', customer_id = Some ''''\<rparr> = None)"
proof -
  have "fst (create_customer \<lparr>name = ''X'', customer_id = Some ''''\<rparr> empty_store) =
     Inr \<lparr>c_name = ''X'', c_customer_id = ''GOD-0001'', total_top_up = 0, total_spent = 0,
          balance = 0\<rparr>"
    by code_simp
  moreover have "counter_value (fst (snd (create_customer \<lparr>name = ''X'', customer_id = Some ''''\<rparr>
          empty_store))) = counter_value empty_store + 1"
    by code_simp
  ultimately show ?thesis by simp
qed

text \<open>
  On the allocator path the source writes the document with \<open>transaction.set\<close> and does
  not read the document at the allocated identifier first, as the path of a requested
  identifier does: when a customer with that identifier exists (created with the requested
  identifier \<open>GOD-0001\<close>), the create replaces its document.
\<close>

lemma create_allocated_replaces_existing:
  "fst (snd (serve [Create \<lparr>name = ''X'', customer_id = Some ''GOD-0001''\<rparr>, TopUp ''GOD-0001'' 100,
       Create \<lparr>name = ''Y'', customer_id = None\<rparr>] empty_store)) =
     fst (snd (create_customer \<lparr>name = ''Y'', customer_id = None\<rparr>
       (fst (snd (top_up_customer_balance ''GOD-0001'' 100
         (fst (snd (create_customer \<lparr>name = ''X'', customer_id = Some ''GOD-0001''\<rparr> empty_store))))))))
   \<and> customers (fst (snd (top_up_customer_balance ''GOD-0001'' 100
         (fst (snd (create_customer \<lparr>name = ''X'', customer_id = Some ''GOD-0001''\<rparr> empty_store)))))) ''GOD-0001'' =
       Some \<lparr>d_name = ''X'', d_customer_id = ''GOD-0001'', d_total_top_up = Some 100,
             d_total_spent = Some 0, d_balance = Some 100\<rparr>
   \<and> customers (fst (snd (serve [Create \<lparr>name = ''X'', customer_id = Some ''GOD-0001''\<rparr>, TopUp ''GOD-0001'' 100,
       Create \<lparr>name = ''Y'', customer_id = None\<rparr>] empty_store))) ''GOD-0001'' =
       Some \<lparr>d_name = ''Y'', d_customer_id = ''GOD-0001'', d_total_top_up = Some 0,
             d_total_spent = Some 0, d_balance = Some 0\<rparr>"
proof -
  have 1: "fst (snd (serve [Create \<lparr>name = ''X'', customer_id = Some ''GOD-0001''\<rparr>, TopUp ''GOD-0001'' 100,
       Create \<lparr>name = ''Y'', customer_id = None\<rparr>] empty_store)) =
     fst (snd (create_customer \<lparr>name = ''Y'', customer_id = None\<rparr>
       (fst (snd (top_up_customer_balance ''GOD-0001'' 100
         (fst (snd (create_customer \<lparr>name = ''X'', customer_id = Some ''GOD-0001''\<rparr> empty_store))))))))"
    by (simp add: split_beta)
  have 2: "customers (fst (snd (top_up_customer_balance ''GOD-0001'' 100
         (fst (snd (create_customer \<lparr>name = ''X'', customer_id = Some ''GOD-0001''\<rparr> empty_store)))))) ''GOD-0001'' =
       Some \<lparr>d_name = ''X'', d_customer_id = ''GOD-0001'', d_total_top_up = Some 100,
             d_total_spent = Some 0, d_balance = Some 100\<rparr>"
    by code_simp
  have 3: "customers (fst (snd (create_customer \<lparr>name = ''Y'', customer_id = None\<rparr>
       (fst (snd (top_up_customer_balance ''GOD-0001'' 100
         (fst (snd (create_customer \<lparr>name = ''X'', customer_id = Some ''GOD-0001''\<rparr> empty_store))))))))) ''GOD-0001'' =
       Some \<lparr>d_name = ''Y'', d_customer_id = ''GOD-0001'', d_total_top_up = Some 0,
             d_total_spent = Some 0, d_balance = Some 0\<rparr>"
    by code_simp
  from 1 2 3 show ?thesis by simp
qed

text \<open>
  C7 (as amended). A create with a supplied requested identifier that is not empty reads
  the document at that identifier within the transaction and, if the document exists, fails
  with \<open>AlreadyExists\<close>: the transaction is begun once and rolled back, nothing is
  written and the store (customer documents and counter) is unchanged. In particular, of
  two successive creates with the same non-empty requested identifier the second fails with
  \<open>AlreadyExists\<close>.
\<close>

theorem create_requested_id_exists:
  fixes s :: "'m::zero store"
  assumes "customer_id cd = Some rid" and "rid \<noteq> []"
  shows "ReadDocument (CustomerRef rid) \<in> set (snd (snd (create_customer cd s)))
       \<and> (\<forall>d. customers s rid = Some d \<longrightarrow>
            create_customer cd s =
              (Inl AlreadyExists, s,
               [BeginTransaction, ReadDocument (CustomerRef rid), RollbackTransaction]))
       \<and> (customer_id cd2 = Some rid \<longrightarrow>
            create_customer cd2 (fst (snd (create_customer cd s))) =
              (Inl AlreadyExists, fst (snd (create_customer cd s)),
               [BeginTransaction, ReadDocument (CustomerRef rid), RollbackTransaction]))"
proof (intro conjI allI impI)
  show "ReadDocument (CustomerRef rid) \<in> set (snd (snd (create_customer cd s)))"
    using assms by (simp add: create_requested_closed split: option.splits)
next
  fix d assume "customers s rid = Some d"
  with assms show "create_customer cd s =
      (Inl AlreadyExists, s,
       [BeginTransaction, ReadDocument (CustomerRef rid), RollbackTransaction])"
    by (rule create_requested_exists)
next
  assume cd2: "customer_id cd2 = Some rid"
  have "\<exists>d. customers (fst (snd (create_customer cd s))) rid = Some d"
    using assms by (simp add: create_requested_closed split: option.splits)
  then obtain d where "customers (fst (snd (create_customer cd s))) rid = Some d" ..
  with cd2 assms(2) show "create_customer cd2 (fst (snd (create_customer cd s))) =
      (Inl AlreadyExists, fst (snd (create_customer cd s)),
       [BeginTransaction, ReadDocument (CustomerRef rid), RollbackTransaction])"
    by (rule create_requested_exists)
qed

theorem create_requested_id_exists_witness:
  "customer_id \<lparr>name = ''X'', customer_id = Some ''VIP-1''\<rparr> = Some ''VIP-1''
   \<and> ''VIP-1'' \<noteq> []
   \<and> customer_id \<lparr>name = ''Y'', customer_id = Some ''VIP-1''\<rparr> = Some ''VIP-1''
   \<and> fst (create_customer \<lparr>name = ''X'', customer_id = Some ''VIP-1''\<rparr> empty_store) =
       Inr \<lparr>c_name = ''X'', c_customer_id = ''VIP-1'', total_top_up = 0, total_spent = 0,
            balance = 0\<rparr>
   \<and> create_customer \<lparr>name = ''Y'', customer_id = Some ''VIP-1''\<rparr>
       (fst (snd (create_customer \<lparr>name = ''X'', customer_id = Some ''VIP-1''\<rparr> empty_store))) =
       (Inl AlreadyExists,
        fst (snd (create_customer \<lparr>name = ''X'', customer_id = Some ''VIP-1''\<rparr> empty_store)),
        [BeginTransaction, ReadDocument (CustomerRef ''VIP-1''), RollbackTransaction])"
proof -
  have h1: "customer_id \<lparr>name = ''X'', customer_id = Some ''VIP-1''\<rparr> = Some ''VIP-1''"
    and h2: "''VIP-1'' \<noteq> []"
    and h3: "customer_id \<lparr>name = ''Y'', customer_id = Some ''VIP-1''\<rparr> = Some ''VIP-1''"
    by simp_all
  have ev: "fst (create_customer \<lparr>name = ''X'', customer_id = Some ''VIP-1''\<rparr> empty_store) =
       Inr \<lparr>c_name = ''X'', c_customer_id = ''VIP-1'', total_top_up = 0, total_spent = 0,
            balance = 0\<rparr>"
    by code_simp
  from create_requested_id_exists [OF h1 h2, of empty_store
      "\<lparr>name = ''Y'', customer_id = Some ''VIP-1''\<rparr>"] h3
  have "create_customer \<lparr>name = ''Y'', customer_id = Some ''VIP-1''\<rparr>
       (fst (snd (create_customer \<lparr>name = ''X'', customer_id = Some ''VIP-1''\<rparr> empty_store))) =
       (Inl AlreadyExists,
        fst (snd (create_customer \<lparr>name = ''X'', customer_id = Some ''VIP-1''\<rparr> empty_store)),
        [BeginTransaction, ReadDocument (CustomerRef ''VIP-1''), RollbackTransaction])"
    by blast
  with h1 h2 h3 ev show ?thesis by blast
qed

text \<open>
  The claim as stated fails for the empty string as requested identifier: the create does
  not read a customer document but allocates an identifier, and the second of two such
  creates succeeds as well.
\<close>

theorem create_same_requested_id_twice_counterexample:
  "fst (create_customer \<lparr>name = ''X'', customer_id = Some ''''\<rparr> empty_store) =
     Inr \<lparr>c_name = ''X'', c_customer_id = ''GOD-0001'', total_top_up = 0, total_spent = 0,
          balance = 0\<rparr>
   \<and> fst (create_customer \<lparr>name = ''Y'', customer_id = Some ''''\<rparr>
       (fst (snd (create_customer \<lparr>name = ''X'', customer_id = Some ''''\<rparr> empty_store)))) =
     Inr \<lparr>c_name = ''Y'', c_customer_id = ''GOD-0002'', total_top_up = 0, total_spent = 0,
          balance = 0\<rparr>
   \<and> fst (create_customer \<lparr>name = ''Y'', customer_id = Some ''''\<rparr>
       (fst (snd (create_customer \<lparr>name = ''X'', customer_id = Some ''''\<rparr> empty_store))))
     \<noteq> Inl AlreadyExists
   \<and> snd (snd (create_customer \<lparr>name = ''X'', customer_id = Some ''''\<rparr> empty_store)) =
     [BeginTransaction, ReadDocument CounterRef,
      WriteDocument (SetCounter \<lparr>current_value = Some 0\<rparr>),
      WriteDocument (UpdateCounter 1),
      WriteDocument (SetCustomer ''GOD-0001''
        \<lparr>d_name = ''X'', d_customer_id = ''GOD-0001'', d_total_top_up = Some 0,
         d_total_spent = Some 0, d_balance = Some 0\<rparr>),
      CommitTransaction]"
proof -
  have 1: "fst (create_customer \<lparr>name = ''X'', customer_id = Some ''''\<rparr> empty_store) =
     Inr \<lparr>c_name = ''X'', c_customer_id = ''GOD-0001'', total_top_up = 0, total_spent = 0,
          balance = 0\<rparr>"
    by code_simp
  have 2: "fst (create_customer \<lparr>name = ''Y'', customer_id = Some ''''\<rparr>
       (fst (snd (create_customer \<lparr>name = ''X'', customer_id = Some ''''\<rparr> empty_store)))) =
     Inr \<lparr>c_name = ''Y'', c_customer_id = ''GOD-0002'', total_top_up = 0, total_spent = 0,
          balance = 0\<rparr>"
    by code_simp
  have 3: "snd (snd (create_customer \<lparr>name = ''X'', customer_id = Some ''''\<rparr> empty_store)) =
     [BeginTransaction, ReadDocument CounterRef,
      WriteDocument (SetCounter \<lparr>current_value = Some 0\<rparr>),
      WriteDocument (UpdateCounter 1),
      WriteDocument (SetCustomer ''GOD-0001''
        \<lparr>d_name = ''X'', d_customer_id = ''GOD-0001'', d_total_top_up = Some 0,
         d_total_spent = Some 0, d_balance = Some 0\<rparr>),
      CommitTransaction]"
    by code_simp
  from 1 2 3 show ?thesis by simp
qed

text \<open>
  C1 (as amended). Every customer record that a create, top-up or spend request returns
  or leaves in the store has \<open>0 \<le> balance\<close>, in the floating-point arithmetic of the
  source (finite doubles): each request preserves this on the store, whatever requests are
  served one after the other. When the monetary arithmetic is exact (the amounts and
  totals are elements of a linearly ordered abelian group, such as integers or decimal
  numbers), every such record satisfies \<open>balance = total_top_up - total_spent\<close> as well,
  and each request preserves both halves of the invariant.
\<close>

theorem ledger_invariant_preserved:
  fixes sd :: "double store" and s :: "'m::linordered_ab_group_add store"
  shows "(balance_nonneg sd \<and> serve rsd sd = (outsd, sd', trd) \<longrightarrow>
            balance_nonneg sd' \<and> (\<forall>c. Inr c \<in> set outsd \<longrightarrow> 0 \<le> balance c))
       \<and> (store_invariant s \<and> serve rs s = (outs, s', tr) \<longrightarrow>
            store_invariant s' \<and> (\<forall>c. Inr c \<in> set outs \<longrightarrow> ledger_invariant c))"
  using serve_preserves_nonneg_double [of sd rsd outsd sd' trd]
    serve_preserves_invariant [of s rs outs s' tr]
  by blast


theorem ledger_invariant_preserved_witness:
  "balance_nonneg (\<lparr>customers = Map.empty, counter = None\<rparr> :: double store)
   \<and> fst (serve [Create \<lparr>name = ''Alice'', customer_id = None\<rparr>,
             TopUp ''GOD-0001'' (Double 3602879701896397 (- 55)),
             Spend ''GOD-0001'' (Double 3602879701896397 (- 55)),
             TopUp ''GOD-0001'' (Double 3602879701896397 (- 54))]
            \<lparr>customers = Map.empty, counter = None\<rparr>) ! 3 =
       Inr \<lparr>c_name = ''Alice'', c_customer_id = ''GOD-0001'',
             total_top_up = Double 1351079888211149 (- 52),
             total_spent = Double 3602879701896397 (- 55),
             balance = Double 3602879701896397 (- 54)\<rparr>
   \<and> 0 \<le> balance \<lparr>c_name = ''Alice'', c_customer_id = ''GOD-0001'',
             total_top_up = Double 1351079888211149 (- 52),
             total_spent = Double 3602879701896397 (- 55),
             balance = Double 3602879701896397 (- 54)\<rparr>
   \<and> balance_nonneg (fst (snd (serve [Create \<lparr>name = ''Alice'', customer_id = None\<rparr>,
             TopUp ''GOD-0001'' (Double 3602879701896397 (- 55)),
             Spend ''GOD-0001'' (Double 3602879701896397 (- 55)),
             TopUp ''GOD-0001'' (Double 3602879701896397 (- 54))]
            (\<lparr>customers = Map.empty, counter = None\<rparr> :: double store))))
   \<and> store_invariant empty_store
   \<and> fst (serve [Create \<lparr>name = ''Alice'', customer_id = None\<rparr>, TopUp ''GOD-0001'' 100,
             Spend ''GOD-0001'' 40, Spend ''GOD-0001'' 1000] empty_store) =
       [Inr \<lparr>c_name = ''Alice'', c_customer_id = ''GOD-0001'', total_top_up = 0,
             total_spent = 0, balance = 0\<rparr>,
        Inr \<lparr>c_name = ''Alice'', c_customer_id = ''GOD-0001'', total_top_up = 100,
             total_spent = 0, balance = 100\<rparr>,
        Inr \<lparr>c_name = ''Alice'', c_customer_id = ''GOD-0001'', total_top_up = 100,
             total_spent = 40, balance = 60\<rparr>,
        Inl InsufficientBalance]
   \<and> ledger_invariant \<lparr>c_name = ''Alice'', c_customer_id = ''GOD-0001'',
         total_top_up = 100::int, total_spent = 40, balance = 60\<rparr>
   \<and> store_invariant (fst (snd (serve [Create \<lparr>name = ''Alice'', customer_id = None\<rparr>,
         TopUp ''GOD-0001'' 100, Spend ''GOD-0001'' 40, Spend ''GOD-0001'' 1000] empty_store)))"
proof -
  let ?rd = "[Create \<lparr>name = ''Alice'', customer_id = None\<rparr>,
             TopUp ''GOD-0001'' (Double 3602879701896397 (- 55)),
             Spend ''GOD-0001'' (Double 3602879701896397 (- 55)),
             TopUp ''GOD-0001'' (Double 3602879701896397 (- 54))]"
  let ?sd = "\<lparr>customers = Map.empty, counter = None\<rparr> :: double store"
  let ?cd = "\<lparr>c_name = ''Alice'', c_customer_id = ''GOD-0001'',
             total_top_up = Double 1351079888211149 (- 52),
             total_spent = Double 3602879701896397 (- 55),
             balance = Double 3602879701896397 (- 54)\<rparr>"
  let ?rs = "[Create \<lparr>name = ''Alice'', customer_id = None\<rparr>, TopUp ''GOD-0001'' 100,
             Spend ''GOD-0001'' 40, Spend ''GOD-0001'' 1000] :: int request list"
  let ?c = "\<lparr>c_name = ''Alice'', c_customer_id = ''GOD-0001'',
         total_top_up = 100::int, total_spent = 40, balance = 60\<rparr>"
  have id: "balance_nonneg ?sd" by (simp add: balance_nonneg_def)
  have hd: "serve ?rd ?sd =
      (fst (serve ?rd ?sd), fst (snd (serve ?rd ?sd)), snd (snd (serve ?rd ?sd)))"
    by simp
  have evd: "fst (serve ?rd ?sd) ! 3 = Inr ?cd" by code_simp
  have lend: "3 < length (fst (serve ?rd ?sd))" by code_simp
  have i: "store_invariant empty_store"
    by (simp add: store_invariant_def empty_store_def)
  have h: "serve ?rs empty_store =
      (fst (serve ?rs empty_store), fst (snd (serve ?rs empty_store)),
       snd (snd (serve ?rs empty_store)))"
    by simp
  have ev: "fst (serve ?rs empty_store) =
       [Inr \<lparr>c_name = ''Alice'', c_customer_id = ''GOD-0001'', total_top_up = 0,
             total_spent = 0, balance = 0\<rparr>,
        Inr \<lparr>c_name = ''Alice'', c_customer_id = ''GOD-0001'', total_top_up = 100,
             total_spent = 0, balance = 100\<rparr>,
        Inr ?c,
        Inl InsufficientBalance]"
    by code_simp
  from ledger_invariant_preserved [of ?sd ?rd "fst (serve ?rd ?sd)" "fst (snd (serve ?rd ?sd))"
      "snd (snd (serve ?rd ?sd))" empty_store ?rs "fst (serve ?rs empty_store)"
      "fst (snd (serve ?rs empty_store))" "snd (snd (serve ?rs empty_store))"] id hd i h
  have sd: "balance_nonneg (fst (snd (serve ?rd ?sd)))"
    and ad: "\<forall>c. Inr c \<in> set (fst (serve ?rd ?sd)) \<longrightarrow> 0 \<le> balance c"
    and s: "store_invariant (fst (snd (serve ?rs empty_store)))"
    and a: "\<forall>c. Inr c \<in> set (fst (serve ?rs empty_store)) \<longrightarrow> ledger_invariant c"
    by blast+
  have "fst (serve ?rd ?sd) ! 3 \<in> set (fst (serve ?rd ?sd))"
    using lend by (rule nth_mem)
  then have "Inr ?cd \<in> set (fst (serve ?rd ?sd))" by (simp only: evd)
  with ad have cd: "0 \<le> balance ?cd" by blast
  have "Inr ?c \<in> set (fst (serve ?rs empty_store))" by (simp only: ev) simp
  with a have c: "ledger_invariant ?c" by blast
  from id evd cd sd i ev c s show ?thesis by blast
qed

text \<open>
  The claim as stated fails for the floats of the source, by rounding. The requests are
  a create, a top-up of \<open>0.1\<close>, a spend of \<open>0.1\<close> and a top-up of \<open>0.2\<close>, where \<open>0.1\<close>
  is the double \<open>3602879701896397 * 2 ^ -55\<close> and \<open>0.2\<close> the double
  \<open>3602879701896397 * 2 ^ -54\<close>. The last top-up computes \<open>total_top_up = 0.1 + 0.2\<close>,
  which rounds to \<open>0.30000000000000004\<close>, and \<open>balance = 0.0 + 0.2 = 0.2\<close>, while
  \<open>total_spent\<close> is \<open>0.1\<close>: the record returned and stored has
  \<open>total_top_up - total_spent = 0.20000000000000004\<close>, which is not its balance.
\<close>

theorem ledger_equation_rounding_counterexample:
  "store_invariant (\<lparr>customers = Map.empty, counter = None\<rparr> :: double store)
   \<and> fst (serve [Create \<lparr>name = ''Alice'', customer_id = None\<rparr>,
             TopUp ''GOD-0001'' (Double 3602879701896397 (- 55)),
             Spend ''GOD-0001'' (Double 3602879701896397 (- 55)),
             TopUp ''GOD-0001'' (Double 3602879701896397 (- 54))]
            \<lparr>customers = Map.empty, counter = None\<rparr>) =
       [Inr \<lparr>c_name = ''Alice'', c_customer_id = ''GOD-0001'', total_top_up = Double 0 0,
             total_spent = Double 0 0, balance = Double 0 0\<rparr>,
        Inr \<lparr>c_name = ''Alice'', c_customer_id = ''GOD-0001'',
             total_top_up = Double 3602879701896397 (- 55), total_spent = Double 0 0,
             balance = Double 3602879701896397 (- 55)\<rparr>,
        Inr \<lparr>c_name = ''Alice'', c_customer_id = ''GOD-0001'',
             total_top_up = Double 3602879701896397 (- 55),
             total_spent = Double 3602879701896397 (- 55), balance = Double 0 0\<rparr>,
        Inr \<lparr>c_name = ''Alice'', c_customer_id = ''GOD-0001'',
             total_top_up = Double 1351079888211149 (- 52),
             total_spent = Double 3602879701896397 (- 55),
             balance = Double 3602879701896397 (- 54)\<rparr>]
   \<and> customers (fst (snd (serve [Create \<lparr>name = ''Alice'', customer_id = None\<rparr>,
             TopUp ''GOD-0001'' (Double 3602879701896397 (- 55)),
             Spend ''GOD-0001'' (Double 3602879701896397 (- 55)),
             TopUp ''GOD-0001'' (Double 3602879701896397 (- 54))]
            \<lparr>customers = Map.empty, counter = None\<rparr>))) ''GOD-0001'' =
       Some \<lparr>d_name = ''Alice'', d_customer_id = ''GOD-0001'',
             d_total_top_up = Some (Double 1351079888211149 (- 52)),
             d_total_spent = Some (Double 3602879701896397 (- 55)),
             d_balance = Some (Double 3602879701896397 (- 54))\<rparr>
   \<and> Double 1351079888211149 (- 52) - Double 3602879701896397 (- 55)
       = Double 7205759403792795 (- 55)
   \<and> \<not> ledger_invariant \<lparr>c_name = ''Alice'', c_customer_id = ''GOD-0001'',
             total_top_up = Double 1351079888211149 (- 52),
             total_spent = Double 3602879701896397 (- 55),
             balance = Double 3602879701896397 (- 54)\<rparr>"
proof -
  let ?rs = "[Create \<lparr>name = ''Alice'', customer_id = None\<rparr>,
             TopUp ''GOD-0001'' (Double 3602879701896397 (- 55)),
             Spend ''GOD-0001'' (Double 3602879701896397 (- 55)),
             TopUp ''GOD-0001'' (Double 3602879701896397 (- 54))]"
  let ?s = "\<lparr>customers = Map.empty, counter = None\<rparr> :: double store"
  have i: "store_invariant ?s" by (simp add: store_invariant_def)
  have outs: "fst (serve ?rs ?s) =
       [Inr \<lparr>c_name = ''Alice'', c_customer_id = ''GOD-0001'', total_top_up = Double 0 0,
             total_spent = Double 0 0, balance = Double 0 0\<rparr>,
        Inr \<lparr>c_name = ''Alice'', c_customer_id = ''GOD-0001'',
             total_top_up = Double 3602879701896397 (- 55), total_spent = Double 0 0,
             balance = Double 3602879701896397 (- 55)\<rparr>,
        Inr \<lparr>c_name = ''Alice'', c_customer_id = ''GOD-0001'',
             total_top_up = Double 3602879701896397 (- 55),
             total_spent = Double 3602879701896397 (- 55), balance = Double 0 0\<rparr>,
        Inr \<lparr>c_name = ''Alice'', c_customer_id = ''GOD-0001'',
             total_top_up = Double 1351079888211149 (- 52),
             total_spent = Double 3602879701896397 (- 55),
             balance = Double 3602879701896397 (- 54)\<rparr>]"
    by code_simp
  have doc: "customers (fst (snd (serve ?rs ?s))) ''GOD-0001'' =
       Some \<lparr>d_name = ''Alice'', d_customer_id = ''GOD-0001'',
             d_total_top_up = Some (Double 1351079888211149 (- 52)),
             d_total_spent = Some (Double 3602879701896397 (- 55)),
             d_balance = Some (Double 3602879701896397 (- 54))\<rparr>"
    by code_simp
  have diff: "Double 1351079888211149 (- 52) - Double 3602879701896397 (- 55)
       = Double 7205759403792795 (- 55)"
    by code_simp
  have no: "\<not> ledger_invariant \<lparr>c_name = ''Alice'', c_customer_id = ''GOD-0001'',
             total_top_up = Double 1351079888211149 (- 52),
             total_spent = Double 3602879701896397 (- 55),
             balance = Double 3602879701896397 (- 54)\<rparr>"
    by (simp add: ledger_invariant_def diff)
  from i outs doc diff no show ?thesis by blast
qed

text \<open>
  C9. Two concurrent top-ups of the same amount run against the same existing customer,
  their steps interleaved in any order by the store's runner. In every state they reach,
  the store holds the customer document topped up once for each call that has finished,
  every finished call has succeeded, and at most one conflict has occurred. When each call
  has had four turns (at most: begin, conflict, begin again, commit), both calls have
  finished and succeeded and the balance is the initial balance plus the amount twice:
  with an initial balance of 0 and an amount of 10 it is exactly 20, never 10. When both
  calls hold a snapshot of the same state (schedule \<open>A, B, A, B\<close>), the call that commits
  first succeeds and the other meets the conflict, writes nothing and is retried; its
  second attempt (\<open>B, B\<close>) succeeds on the fresh snapshot.
\<close>

theorem concurrent_top_ups_both_apply:
  fixes amount :: "'m::{zero,plus}"
  assumes "customers s cid = Some d"
  shows
    "(case two_top_ups cid amount ts s of (sh, a, b) \<Rightarrow>
        customers (current sh) cid = Some ((topped_up amount ^^ (finished a + finished b)) d)
      \<and> conflicts a + conflicts b \<le> 1
      \<and> (\<forall>r. result a = Some r \<or> result b = Some r \<longrightarrow>
             r = Inr (Customer_of (topped_up amount d)) \<or>
             r = Inr (Customer_of (topped_up amount (topped_up amount d))))
      \<and> (4 \<le> count_list ts A \<and> 4 \<le> count_list ts B \<longrightarrow>
             finished a = 1 \<and> finished b = 1
           \<and> customers (current sh) cid = Some (topped_up amount (topped_up amount d))
           \<and> balance (Customer_of (the (customers (current sh) cid)))
               = balance (Customer_of d) + amount + amount
           \<and> total_top_up (Customer_of (the (customers (current sh) cid)))
               = total_top_up (Customer_of d) + amount + amount))
   \<and> (case two_top_ups cid amount [A, B, A, B] s of (sh, a, b) \<Rightarrow>
         a = Finished 0 (Inr (Customer_of (topped_up amount d))) \<and> b = Pending 1
       \<and> customers (current sh) cid = Some (topped_up amount d))
   \<and> (case two_top_ups cid amount [A, B, A, B, B, B] s of (sh, a, b) \<Rightarrow>
         a = Finished 0 (Inr (Customer_of (topped_up amount d)))
       \<and> b = Finished 1 (Inr (Customer_of (topped_up amount (topped_up amount d))))
       \<and> customers (current sh) cid = Some (topped_up amount (topped_up amount d)))"
proof -
  let ?body = "top_up_in_transaction cid amount"
  let ?init = "(\<lparr>current = s, versions = (\<lambda>r. 0)\<rparr>, Pending 0, Pending 0) ::
    'm shared \<times> 'm call \<times> 'm call"
  obtain sh a b where st: "two_top_ups cid amount ts s = (sh, a, b)"
    by (cases "two_top_ups cid amount ts s") auto
  then have il: "interleave ?body ts ?init = (sh, a, b)" by (simp add: two_top_ups_def)
  from race_interleave [OF race_invariant_initial [OF assms], of amount ts]
  have inv: "race_invariant cid amount d (sh, a, b)"
    and ta: "turns_left a \<le> 4 - count_list ts A"
    and tb: "turns_left b \<le> 4 - count_list ts B"
    by (simp_all add: il)
  let ?k = "finished a + finished b"
  from inv have cur: "customers (current sh) cid = Some ((topped_up amount ^^ ?k) d)"
    and cf: "conflicts a + conflicts b \<le> 1"
    and oka: "call_ok cid amount d ?k (finished b) a"
    and okb: "call_ok cid amount d ?k (finished a) b"
    by (simp_all add: race_invariant_def)
  have k2: "?k \<le> 2" using finished_le_1 [of a] finished_le_1 [of b] by simp
  have res: "\<forall>r. result a = Some r \<or> result b = Some r \<longrightarrow>
             r = Inr (Customer_of (topped_up amount d)) \<or>
             r = Inr (Customer_of (topped_up amount (topped_up amount d)))"
    using call_ok_result [OF oka k2] call_ok_result [OF okb k2] by blast
  have live: "4 \<le> count_list ts A \<and> 4 \<le> count_list ts B \<longrightarrow>
             finished a = 1 \<and> finished b = 1
           \<and> customers (current sh) cid = Some (topped_up amount (topped_up amount d))
           \<and> balance (Customer_of (the (customers (current sh) cid)))
               = balance (Customer_of d) + amount + amount
           \<and> total_top_up (Customer_of (the (customers (current sh) cid)))
               = total_top_up (Customer_of d) + amount + amount"
  proof
    assume c: "4 \<le> count_list ts A \<and> 4 \<le> count_list ts B"
    with ta tb have "turns_left a = 0" "turns_left b = 0" by simp_all
    with cf have fa: "finished a = 1" and fb: "finished b = 1"
      by (simp_all add: turns_left_0)
    with cur have c2: "customers (current sh) cid = Some (topped_up amount (topped_up amount d))"
      by (simp add: numeral_2_eq_2)
    show "finished a = 1 \<and> finished b = 1
           \<and> customers (current sh) cid = Some (topped_up amount (topped_up amount d))
           \<and> balance (Customer_of (the (customers (current sh) cid)))
               = balance (Customer_of d) + amount + amount
           \<and> total_top_up (Customer_of (the (customers (current sh) cid)))
               = total_top_up (Customer_of d) + amount + amount"
      using fa fb c2 by (simp add: topped_up_def Customer_of_simps get_default_def)
  qed
  have main: "(case two_top_ups cid amount ts s of (sh, a, b) \<Rightarrow>
        customers (current sh) cid = Some ((topped_up amount ^^ (finished a + finished b)) d)
      \<and> conflicts a + conflicts b \<le> 1
      \<and> (\<forall>r. result a = Some r \<or> result b = Some r \<longrightarrow>
             r = Inr (Customer_of (topped_up amount d)) \<or>
             r = Inr (Customer_of (topped_up amount (topped_up amount d))))
      \<and> (4 \<le> count_list ts A \<and> 4 \<le> count_list ts B \<longrightarrow>
             finished a = 1 \<and> finished b = 1
           \<and> customers (current sh) cid = Some (topped_up amount (topped_up amount d))
           \<and> balance (Customer_of (the (customers (current sh) cid)))
               = balance (Customer_of d) + amount + amount
           \<and> total_top_up (Customer_of (the (customers (current sh) cid)))
               = total_top_up (Customer_of d) + amount + amount))"
    unfolding st prod.case using cur cf res live by blast
  from main two_top_ups_overlap [OF assms, of amount] show ?thesis by blast
qed

theorem concurrent_top_ups_both_apply_witness:
  "customers race_store ''GOD-0001'' =
     Some \<lparr>d_name = ''Alice'', d_customer_id = ''GOD-0001'', d_total_top_up = Some (Double 0 0),
           d_total_spent = Some (Double 0 0), d_balance = Some (Double 0 0)\<rparr>
   \<and> 4 \<le> count_list [A, B, A, B, B, B, A, A] A
   \<and> 4 \<le> count_list [A, B, A, B, B, B, A, A] B
   \<and> balance (Customer_of (the (customers (current (fst
         (two_top_ups ''GOD-0001'' (Double 5 1) [A, B, A, B, B, B, A, A] race_store)))
          ''GOD-0001''))) = Double 5 2
   \<and> Double 5 2 \<noteq> Double 5 1
   \<and> customers (current (fst
         (two_top_ups ''GOD-0001'' (Double 5 1) [A, B, A, B, B, B, A, A] race_store)))
          ''GOD-0001'' =
       Some \<lparr>d_name = ''Alice'', d_customer_id = ''GOD-0001'', d_total_top_up = Some (Double 5 2),
             d_total_spent = Some (Double 0 0), d_balance = Some (Double 5 2)\<rparr>
   \<and> result (fst (snd
         (two_top_ups ''GOD-0001'' (Double 5 1) [A, B, A, B, B, B, A, A] race_store))) =
       Some (Inr \<lparr>c_name = ''Alice'', c_customer_id = ''GOD-0001'',
         total_top_up = Double 5 1, total_spent = Double 0 0, balance = Double 5 1\<rparr>)
   \<and> result (snd (snd
         (two_top_ups ''GOD-0001'' (Double 5 1) [A, B, A, B, B, B, A, A] race_store))) =
       Some (Inr \<lparr>c_name = ''Alice'', c_customer_id = ''GOD-0001'',
         total_top_up = Double 5 2, total_spent = Double 0 0, balance = Double 5 2\<rparr>)
   \<and> conflicts (fst (snd
         (two_top_ups ''GOD-0001'' (Double 5 1) [A, B, A, B, B, B, A, A] race_store))) = 0
   \<and> conflicts (snd (snd
         (two_top_ups ''GOD-0001'' (Double 5 1) [A, B, A, B, B, B, A, A] race_store))) = 1"
proof -
  let ?d = "\<lparr>d_name = ''Alice'', d_customer_id = ''GOD-0001'', d_total_top_up = Some (Double 0 0),
           d_total_spent = Some (Double 0 0), d_balance = Some (Double 0 0)\<rparr>"
  let ?ts = "[A, B, A, B, B, B, A, A]"
  let ?st = "two_top_ups ''GOD-0001'' (Double 5 1) ?ts race_store"
  have h: "customers race_store ''GOD-0001'' = Some ?d" by (simp add: race_store_def)
  have ca: "4 \<le> count_list ?ts A" and cb: "4 \<le> count_list ?ts B" by simp_all
  obtain sh a b where st: "?st = (sh, a, b)" by (cases ?st) auto
  from concurrent_top_ups_both_apply [OF h, of "Double 5 1" ?ts] ca cb
  have "balance (Customer_of (the (customers (current sh) ''GOD-0001'')))
          = balance (Customer_of ?d) + Double 5 1 + Double 5 1"
    unfolding st prod.case by blast
  moreover have "balance (Customer_of ?d) + Double 5 1 + Double 5 1 = Double 5 2"
    by code_simp
  ultimately have bal: "balance (Customer_of (the (customers (current (fst ?st)) ''GOD-0001'')))
      = Double 5 2"
    by (simp only: st fst_conv)
  have ne: "Double 5 2 \<noteq> Double 5 1" by simp
  have doc: "customers (current (fst ?st)) ''GOD-0001'' =
       Some \<lparr>d_name = ''Alice'', d_customer_id = ''GOD-0001'', d_total_top_up = Some (Double 5 2),
             d_total_spent = Some (Double 0 0), d_balance = Some (Double 5 2)\<rparr>"
    by code_simp
  have ra: "result (fst (snd ?st)) =
       Some (Inr \<lparr>c_name = ''Alice'', c_customer_id = ''GOD-0001'',
         total_top_up = Double 5 1, total_spent = Double 0 0, balance = Double 5 1\<rparr>)"
    by code_simp
  have rb: "result (snd (snd ?st)) =
       Some (Inr \<lparr>c_name = ''Alice'', c_customer_id = ''GOD-0001'',
         total_top_up = Double 5 2, total_spent = Double 0 0, balance = Double 5 2\<rparr>)"
    by code_simp
  have na: "conflicts (fst (snd ?st)) = 0" by code_simp
  have nb: "conflicts (snd (snd ?st)) = 1" by code_simp
  from h ca cb bal ne doc ra rb na nb show ?thesis by blast
qed

end
